theory Spec2Isabelle
  imports Complex_Main "HOL-Library.Word"
begin

section \<open>Errors and output streams\<close>

text \<open>
  A shallow embedding of \<^verbatim>\<open>linalg/ginkgo.cpp\<close>, the bridge between MFEM operators and
  the Ginkgo backend. Every fatal exit of the source is a value of \<open>error\<close>:
  \<^item> \<open>Abort msg\<close>: \<^verbatim>\<open>MFEM_ABORT(msg)\<close>, or an \<^verbatim>\<open>MFEM_VERIFY(cond, msg)\<close> whose condition is false;
  \<^item> \<open>BadDimension name rows cols\<close>: \<^verbatim>\<open>throw gko::BadDimension(...)\<close>;
  \<^item> \<open>DimensionMismatch name rows cols\<close>: the dimension error of the backend's own
    validation of an operand;
  \<^item> \<open>NotSupported\<close>: a failed \<^verbatim>\<open>gko::as<T>\<close> cast;
  \<^item> \<open>NullDereference\<close>, \<open>OutOfBoundsRead\<close>, \<open>InvalidMemoryAccess\<close>: the places where the
    source dereferences a null pointer, reads past the end of an array, or reads memory of
    one executor through another (undefined behaviour in C++, made explicit here).
  The streams \<^verbatim>\<open>mfem::err\<close> and \<^verbatim>\<open>mfem::out\<close> are lists of messages, oldest first.
  The entries of vectors and matrices and the scalars of the backend are values of the
  type \<open>double\<close> below. Tolerances and reduction factors, on which the source does no
  arithmetic but a square root, are reals.
\<close>

datatype error =
    Abort string
  | BadDimension string nat nat
  | DimensionMismatch string nat nat
  | NotSupported
  | NullDereference
  | OutOfBoundsRead
  | InvalidMemoryAccess

section \<open>Double precision numbers\<close>

text \<open>
  A C \<^verbatim>\<open>double\<close> (IEEE 754 binary64): a finite number, where \<open>Finite 0\<close> is the positive
  and \<open>NegZero\<close> the negative zero, an infinity, or a NaN (its sign and payload are not
  kept). A \<open>Finite r\<close> stands for a double only if \<open>r\<close> is representable, which is
  \<open>is_double\<close>.
\<close>

datatype double = Finite real | NegZero | PosInf | NegInf | NaN

text \<open>Rounding a real to the nearest integer, a tie going to the even one.\<close>

definition round_half_even :: "real \<Rightarrow> int" where
  "round_half_even r =
     (let f = \<lfloor>r\<rfloor>; d = r - of_int f
      in if d < 1/2 then f else if d > 1/2 then f + 1 else if even f then f else f + 1)"

text \<open>
  Rounding a real to the nearest double (round to nearest, ties to even): the result is a
  multiple of the unit in the last place of the binade of \<open>r\<close>, 53 bits wide, binades
  below \<open>2 ^ (-1022)\<close> sharing the one of the subnormal numbers; a result of magnitude
  \<open>2 ^ 1024\<close> or more is an infinity, and a result of zero keeps the sign of \<open>r\<close>.
\<close>

definition rnd :: "real \<Rightarrow> double" where
  "rnd r =
     (let e = max \<lfloor>log 2 \<bar>r\<bar>\<rfloor> (- 1022);
          ulp = 2 powi (e - 52);
          v = of_int (round_half_even (r / ulp)) * ulp
      in if \<bar>v\<bar> \<ge> 2 ^ 1024 then (if r < 0 then NegInf else PosInf)
         else if v = 0 then (if r < 0 then NegZero else Finite 0)
         else Finite v)"

definition is_double :: "double \<Rightarrow> bool" where
  "is_double d = (case d of Finite r \<Rightarrow> rnd r = Finite r | other \<Rightarrow> True)"

fun is_finite :: "double \<Rightarrow> bool" where
  "is_finite (Finite r) = True"
| "is_finite NegZero = True"
| "is_finite d = False"

fun val :: "double \<Rightarrow> real" where
  "val (Finite r) = r"
| "val d = 0"

text \<open>The sign bit: \<open>True\<close> for a negative number.\<close>

fun sign :: "double \<Rightarrow> bool" where
  "sign (Finite r) = (r < 0)"
| "sign NegZero = True"
| "sign PosInf = False"
| "sign NegInf = True"
| "sign NaN = False"

definition is_zero :: "double \<Rightarrow> bool" where
  "is_zero d = (d = Finite 0 \<or> d = NegZero)"

definition signed_inf :: "bool \<Rightarrow> double" where
  "signed_inf s = (if s then NegInf else PosInf)"

definition signed_zero :: "bool \<Rightarrow> double" where
  "signed_zero s = (if s then NegZero else Finite 0)"

text \<open>
  The product \<^verbatim>\<open>a * b\<close> of two doubles: a NaN operand gives NaN, zero times infinity gives
  NaN, the sign is the exclusive or of the signs, and a finite product is rounded.
\<close>

definition dmul :: "double \<Rightarrow> double \<Rightarrow> double" where
  "dmul a b =
     (if a = NaN \<or> b = NaN then NaN
      else if is_finite a \<and> is_finite b then
        (if val a * val b = 0 then signed_zero (sign a \<noteq> sign b) else rnd (val a * val b))
      else if is_zero a \<or> is_zero b then NaN
      else signed_inf (sign a \<noteq> sign b))"

text \<open>
  The sum \<^verbatim>\<open>a + b\<close> of two doubles: a NaN operand gives NaN, as do infinities of opposite
  sign; an exact zero sum is the positive zero unless both operands are the negative zero;
  a finite sum is rounded.
\<close>

definition dadd :: "double \<Rightarrow> double \<Rightarrow> double" where
  "dadd a b =
     (if a = NaN \<or> b = NaN then NaN
      else if is_finite a \<and> is_finite b then
        (if val a + val b = 0 then signed_zero (a = NegZero \<and> b = NegZero)
         else rnd (val a + val b))
      else if is_finite a then b
      else if is_finite b then a
      else if a = b then a
      else NaN)"

text \<open>Equal as numbers: the same value, or two zeros (that may differ in sign).\<close>

definition same_number :: "double \<Rightarrow> double \<Rightarrow> bool" where
  "same_number a b = (a = b \<or> is_zero a \<and> is_zero b)"

datatype message =
    Text string
  | ConvergedIn int double
  | ResidualTrace "double list"

section \<open>Executors\<close>

text \<open>
  A Ginkgo executor. A device executor is created with its device id and its master (host)
  executor; a host executor is its own master.
\<close>

datatype Executor =
    ReferenceExecutor
  | OmpExecutor
  | CudaExecutor int Executor
  | HipExecutor int Executor

fun get_master :: "Executor \<Rightarrow> Executor" where
  "get_master ReferenceExecutor = ReferenceExecutor"
| "get_master OmpExecutor = OmpExecutor"
| "get_master (CudaExecutor d m) = m"
| "get_master (HipExecutor d m) = m"

text \<open>The memory space an executor's arrays live in.\<close>

datatype mem_space = HostMemory | CudaMemory int | HipMemory int

fun mem_space_of :: "Executor \<Rightarrow> mem_space" where
  "mem_space_of ReferenceExecutor = HostMemory"
| "mem_space_of OmpExecutor = HostMemory"
| "mem_space_of (CudaExecutor d m) = CudaMemory d"
| "mem_space_of (HipExecutor d m) = HipMemory d"

text \<open>
  \<^verbatim>\<open>GinkgoExecutor::ExecType\<close>. \<open>OTHER\<close> stands for any value of the enumeration type
  outside the four enumerators, which reaches the \<^verbatim>\<open>default\<close> label of the switch.
\<close>

datatype ExecType = REFERENCE | OMP | CUDA | HIP | OTHER

text \<open>
  What the constructors of \<^verbatim>\<open>GinkgoExecutor\<close> read from the build and the runtime:
  the device counts reported by Ginkgo, whether \<^verbatim>\<open>MFEM_USE_CUDA\<close> / \<^verbatim>\<open>MFEM_USE_HIP\<close> are
  defined, and the result of \<^verbatim>\<open>cudaGetDevice\<close> / \<^verbatim>\<open>hipGetDevice\<close> (\<open>None\<close> when the
  call fails, which \<^verbatim>\<open>MFEM_GPU_CHECK\<close> turns into an abort).
\<close>

record Runtime =
  cuda_num_devices :: int
  hip_num_devices :: int
  MFEM_USE_CUDA :: bool
  MFEM_USE_HIP :: bool
  cudaGetDevice :: "int option"
  hipGetDevice :: "int option"

record GinkgoExecutor =
  ge_executor :: "Executor option"

text \<open>The MFEM device configuration, as far as \<^verbatim>\<open>Device::Allows\<close> is asked about it.\<close>

record Device =
  Allows_CUDA_MASK :: bool
  Allows_HIP_MASK :: bool

definition create_cuda :: "Runtime \<Rightarrow> error + GinkgoExecutor \<times> message list" where
  "create_cuda rt =
     (if MFEM_USE_CUDA rt then
        (case cudaGetDevice rt of
           None \<Rightarrow> Inl (Abort ''GPU Error'')
         | Some current_device \<Rightarrow>
             Inr (\<lparr>ge_executor = Some (CudaExecutor current_device OmpExecutor)\<rparr>, []))
      else Inr (\<lparr>ge_executor = None\<rparr>, []))"

definition create_hip :: "Runtime \<Rightarrow> error + GinkgoExecutor \<times> message list" where
  "create_hip rt =
     (if MFEM_USE_HIP rt then
        (case hipGetDevice rt of
           None \<Rightarrow> Inl (Abort ''GPU Error'')
         | Some current_device \<Rightarrow>
             Inr (\<lparr>ge_executor = Some (HipExecutor current_device OmpExecutor)\<rparr>, []))
      else Inr (\<lparr>ge_executor = None\<rparr>, []))"

text \<open>
  \<^verbatim>\<open>GinkgoExecutor::GinkgoExecutor(ExecType exec_type)\<close>. The result is the constructed
  object together with what was written to \<^verbatim>\<open>mfem::err\<close>, or the abort.
\<close>

fun GinkgoExecutor_ExecType :: "Runtime \<Rightarrow> ExecType \<Rightarrow> error + GinkgoExecutor \<times> message list" where
  "GinkgoExecutor_ExecType rt REFERENCE = Inr (\<lparr>ge_executor = Some ReferenceExecutor\<rparr>, [])"
| "GinkgoExecutor_ExecType rt OMP = Inr (\<lparr>ge_executor = Some OmpExecutor\<rparr>, [])"
| "GinkgoExecutor_ExecType rt CUDA =
     (if cuda_num_devices rt > 0 then create_cuda rt
      else Inl (Abort ''gko::CudaExecutor::get_num_devices() did not report any valid devices.''))"
| "GinkgoExecutor_ExecType rt HIP =
     (if hip_num_devices rt > 0 then create_hip rt
      else Inr (\<lparr>ge_executor = None\<rparr>,
                [Text ''gko::HipExecutor::get_num_devices() did not report any valid devices'']))"
| "GinkgoExecutor_ExecType rt OTHER =
     Inr (\<lparr>ge_executor = None\<rparr>, [Text ''Invalid ExecType specified''])"

text \<open>\<^verbatim>\<open>GinkgoExecutor::GinkgoExecutor(Device &mfem_device)\<close>: the best-match constructor.\<close>

definition GinkgoExecutor_Device :: "Runtime \<Rightarrow> Device \<Rightarrow> error + GinkgoExecutor \<times> message list" where
  "GinkgoExecutor_Device rt mfem_device =
     (if Allows_CUDA_MASK mfem_device then
        (if cuda_num_devices rt > 0 then create_cuda rt
         else Inl (Abort ''gko::CudaExecutor::get_num_devices() did not report any valid devices.''))
      else if Allows_HIP_MASK mfem_device then
        (if hip_num_devices rt > 0 then create_hip rt
         else Inl (Abort ''gko::HipExecutor::get_num_devices() did not report any valid devices.''))
      else Inr (\<lparr>ge_executor = Some OmpExecutor\<rparr>, []))"

text \<open>A runtime with no accelerator device at all.\<close>

definition no_devices :: Runtime where
  "no_devices = \<lparr>cuda_num_devices = 0, hip_num_devices = 0, MFEM_USE_CUDA = False,
     MFEM_USE_HIP = True, cudaGetDevice = None, hipGetDevice = None\<rparr>"

section \<open>Operators, vectors and backend objects\<close>

type_synonym Vector = "double list"

text \<open>
  An MFEM \<^verbatim>\<open>SparseMatrix\<close> in compressed-row form (\<open>Capacity\<close> is
  \<^verbatim>\<open>GetMemoryData().Capacity()\<close>), and any other MFEM \<^verbatim>\<open>Operator\<close>, which exposes its
  sizes and \<^verbatim>\<open>Mult\<close> only. \<open>op_Mult A v\<close> is the vector that \<^verbatim>\<open>A.Mult(v, w)\<close> leaves in \<open>w\<close>.
\<close>

record SparseMatrix =
  sm_Height :: int
  sm_Width :: int
  sm_Capacity :: int
  sm_I :: "int list"
  sm_J :: "int list"
  sm_Data :: "double list"

record GenericOperator =
  op_Height :: int
  op_Width :: int
  op_Mult :: "Vector \<Rightarrow> Vector"

datatype Operator = SparseMatrixOp SparseMatrix | OtherOp GenericOperator

text \<open>The value type of a Ginkgo template instance: \<^verbatim>\<open>double\<close> or \<^verbatim>\<open>float\<close>.\<close>

datatype precision = Double | Float

datatype baseline = initial_resnorm | absolute

text \<open>
  Stopping-criterion factories: \<^verbatim>\<open>gko::stop::ResidualNorm<>\<close>,
  \<^verbatim>\<open>gko::stop::ImplicitResidualNorm<>\<close> (each with its reduction factor and baseline),
  \<^verbatim>\<open>gko::stop::Iteration\<close> (with \<^verbatim>\<open>max_iters\<close>, a 64-bit \<^verbatim>\<open>unsigned long\<close>) and
  \<^verbatim>\<open>gko::stop::Combined\<close>.
\<close>

datatype CriterionFactory =
    ResidualNorm real baseline
  | ImplicitResidualNorm real baseline
  | Iteration "64 word"
  | Combined "CriterionFactory list"

datatype SolverKind = Cg | Bicgstab | Cgs | Fcg | Gmres | CbGmres | Ir

text \<open>
  Factorization factories \<^verbatim>\<open>gko::factorization::Ic<T,int>\<close> and \<^verbatim>\<open>ParIc<T,int>\<close>, with
  the value of \<^verbatim>\<open>with_both_factors\<close>.
\<close>

datatype FactorizationFactory = Ic_fact precision bool | ParIc_fact precision bool

type_synonym storage_precision = int

text \<open>
  The backend's factories and linear operators, as the source builds them. All of them
  are built \<^verbatim>\<open>.on(executor)\<close> of the object that owns them, which is not repeated in each
  node. A null \<^verbatim>\<open>shared_ptr\<close> is \<open>None\<close>.
  \<^item> \<open>Jacobi_Factory T b\<close>: \<^verbatim>\<open>gko::preconditioner::Jacobi<T,int>::build()\<close>, with
    \<^verbatim>\<open>with_max_block_size(b)\<close> when given;
  \<^item> \<open>Ic_Factory f\<close>: \<^verbatim>\<open>gko::preconditioner::Ic<>::build().with_factorization_factory(f)\<close>;
  \<^item> \<open>Smoother_Factory T inner sweeps omega\<close>: \<^verbatim>\<open>gko::solver::build_smoother<T>(inner, sweeps, omega)\<close>;
  \<^item> \<open>AmgxPgm_Factory T deterministic skip_sorting\<close>: \<^verbatim>\<open>gko::multigrid::AmgxPgm<T,int>::build()\<close>;
  \<^item> \<open>Multigrid_Factory\<close>: \<^verbatim>\<open>gko::solver::Multigrid::build()\<close> with its parameters;
  \<^item> \<open>Solver_Factory\<close>: a Krylov or stationary solver factory with its criteria, Krylov
    dimension, storage precision, generated preconditioner, preconditioner factory and
    inner solver factory.
  Linear operators:
  \<^item> \<open>Csr ex rows cols on_device values col_idxs row_ptrs\<close>: a \<^verbatim>\<open>Csr<double,int>\<close> matrix
    over views of the caller's arrays (their host or device pointers);
  \<^item> \<open>OperatorWrapper ex size oper\<close>: the wrapper around an MFEM operator that is not a
    \<^verbatim>\<open>SparseMatrix\<close>;
  \<^item> \<open>Dense ex rows cols values\<close>: a \<^verbatim>\<open>Dense<double>\<close> matrix, its values in the memory
    of \<open>ex\<close>;
  \<^item> \<open>VectorWrapper ex size vec ownership\<close>: the wrapper around an MFEM vector;
  \<^item> \<open>Generated factory op\<close>: what \<^verbatim>\<open>factory->generate(op)\<close> returns.
\<close>

datatype LinOpFactory =
    Jacobi_Factory precision "nat option"
  | Ic_Factory FactorizationFactory
  | Smoother_Factory precision LinOpFactory int real
  | AmgxPgm_Factory precision bool bool
  | Multigrid_Factory
      (min_coarse_rows: nat)
      (pre_smoother: "LinOpFactory option list")
      (mg_level: "LinOpFactory option list")
      (level_selector: "(nat \<Rightarrow> nat) option")
      (coarsest_solver: "LinOpFactory option list")
      (mg_criteria: CriterionFactory)
      (zero_guess: bool)
  | Solver_Factory
      (sf_kind: SolverKind)
      (sf_precision: precision)
      (sf_krylov_dim: "64 word option")
      (sf_storage_precision: "storage_precision option")
      (sf_criteria: "CriterionFactory option")
      (sf_generated_preconditioner: "LinOp option")
      (sf_preconditioner: "LinOpFactory option")
      (sf_solver: "LinOpFactory option")
and LinOp =
    Csr Executor int int bool "double list" "int list" "int list"
  | OperatorWrapper Executor int GenericOperator
  | Dense Executor nat nat "double list"
  | VectorWrapper Executor int Vector bool
  | Generated LinOpFactory LinOp

section \<open>Preconditioners\<close>

text \<open>
  \<^verbatim>\<open>GinkgoPreconditioner\<close>. \<open>p_iterative_mode\<close> is the \<^verbatim>\<open>iterative_mode\<close> member of the
  \<^verbatim>\<open>Solver\<close> base class.
\<close>

record GinkgoPreconditioner =
  p_executor :: "Executor option"
  p_iterative_mode :: bool
  has_generated_precond :: bool
  generated_precond :: "LinOp option"
  precond_gen :: "LinOpFactory option"

text \<open>\<^verbatim>\<open>GinkgoPreconditioner::GinkgoPreconditioner(GinkgoExecutor &exec)\<close>.\<close>

definition GinkgoPreconditioner_ctor :: "GinkgoExecutor \<Rightarrow> GinkgoPreconditioner" where
  "GinkgoPreconditioner_ctor exec =
     \<lparr>p_executor = ge_executor exec, p_iterative_mode = False,
      has_generated_precond = False, generated_precond = None, precond_gen = None\<rparr>"

text \<open>
  Lines 882--886 of \<^verbatim>\<open>GinkgoPreconditioner::SetOperator\<close>: a preconditioner generated
  earlier is discarded.
\<close>

definition discard_generated :: "GinkgoPreconditioner \<Rightarrow> GinkgoPreconditioner" where
  "discard_generated p =
     (if has_generated_precond p
      then p\<lparr>generated_precond := None, has_generated_precond := False\<rparr>
      else p)"

text \<open>
  \<^verbatim>\<open>GinkgoPreconditioner::SetOperator\<close>. A failure carries the state of the object at the
  point where the error is raised.
\<close>

definition GinkgoPreconditioner_SetOperator ::
  "GinkgoPreconditioner \<Rightarrow> Operator \<Rightarrow> error \<times> GinkgoPreconditioner + GinkgoPreconditioner" where
  "GinkgoPreconditioner_SetOperator p0 op =
     (let p = discard_generated p0
      in case op of
           OtherOp g \<Rightarrow> Inl (Abort ''GinkgoPreconditioner::SetOperator : not a SparseMatrix!'', p)
         | SparseMatrixOp op_mat \<Rightarrow>
             (case p_executor p of
                None \<Rightarrow> Inl (NullDereference, p)
              | Some executor \<Rightarrow>
                  (let on_device = (executor \<noteq> get_master executor);
                       nnz = sm_Capacity op_mat;
                       gko_matrix = Csr executor (sm_Height op_mat) (sm_Width op_mat) on_device
                                      (take (nat nnz) (sm_Data op_mat))
                                      (take (nat nnz) (sm_J op_mat))
                                      (take (nat (sm_Height op_mat + 1)) (sm_I op_mat))
                   in case precond_gen p of
                        None \<Rightarrow> Inl (NullDereference, p)
                      | Some gen \<Rightarrow>
                          Inr (p\<lparr>generated_precond := Some (Generated gen gko_matrix),
                                 has_generated_precond := True\<rparr>))))"

text \<open>\<^verbatim>\<open>MFEMPreconditioner::MFEMPreconditioner(GinkgoExecutor &exec, const Solver &mfem_precond)\<close>.\<close>

definition MFEMPreconditioner_ctor ::
  "GinkgoExecutor \<Rightarrow> GenericOperator \<Rightarrow> error + GinkgoPreconditioner" where
  "MFEMPreconditioner_ctor exec mfem_precond =
     (let p = GinkgoPreconditioner_ctor exec
      in case p_executor p of
           None \<Rightarrow> Inl NullDereference
         | Some executor \<Rightarrow>
             Inr (p\<lparr>generated_precond :=
                      Some (OperatorWrapper executor (op_Height mfem_precond) mfem_precond),
                    has_generated_precond := True\<rparr>))"

subsection \<open>The algebraic multigrid preconditioner\<close>

datatype SmootherType = JACOBI | BLOCK_JACOBI | IC | PARIC | CG

text \<open>
  The first \<^verbatim>\<open>switch (smoother)\<close> of \<^verbatim>\<open>AMGPreconditioner::AMGPreconditioner\<close>: the values of
  \<^verbatim>\<open>smoother_gen\<close> and \<^verbatim>\<open>smoother_gen_s\<close> after it (both start out null).
\<close>

fun smoother_switch ::
  "SmootherType \<Rightarrow> int \<Rightarrow> bool \<Rightarrow> LinOpFactory option \<times> LinOpFactory option" where
  "smoother_switch JACOBI pre_sweeps use_mixed_prec =
     (Some (Smoother_Factory Double (Jacobi_Factory Double (Some 1)) pre_sweeps (9/10)),
      if use_mixed_prec
      then Some (Smoother_Factory Float (Jacobi_Factory Float (Some 1)) pre_sweeps (9/10))
      else None)"
| "smoother_switch BLOCK_JACOBI pre_sweeps use_mixed_prec =
     (Some (Smoother_Factory Double (Jacobi_Factory Double None) pre_sweeps (9/10)),
      if use_mixed_prec
      then Some (Smoother_Factory Float (Jacobi_Factory Float None) pre_sweeps (9/10))
      else None)"
| "smoother_switch IC pre_sweeps use_mixed_prec =
     (Some (Smoother_Factory Double (Ic_Factory (Ic_fact Double False)) pre_sweeps (9/10)),
      if use_mixed_prec
      then Some (Smoother_Factory Float (Ic_Factory (Ic_fact Float False)) pre_sweeps (9/10))
      else None)"
| "smoother_switch PARIC pre_sweeps use_mixed_prec =
     (Some (Smoother_Factory Double (Ic_Factory (ParIc_fact Double False)) pre_sweeps (9/10)),
      if use_mixed_prec
      then Some (Smoother_Factory Float (Ic_Factory (ParIc_fact Float False)) pre_sweeps (9/10))
      else None)"
| "smoother_switch CG pre_sweeps use_mixed_prec =
     (let smoother_gen =
            Solver_Factory Cg Double None None (Some (Iteration (word_of_int pre_sweeps)))
              None None None;
          smoother_gen =
            (if use_mixed_prec
             then Solver_Factory Cg Float None None (Some (Iteration (word_of_int pre_sweeps)))
                    None None None
             else smoother_gen)
      in (Some smoother_gen, None))"

text \<open>The second \<^verbatim>\<open>switch (coarse_solver)\<close>: the value of \<^verbatim>\<open>coarse_solver_gen\<close> after it.\<close>

fun coarse_solver_switch :: "SmootherType \<Rightarrow> int \<Rightarrow> bool \<Rightarrow> LinOpFactory option" where
  "coarse_solver_switch JACOBI coarse_solve_its use_mixed_prec =
     (if use_mixed_prec
      then Some (Smoother_Factory Float (Jacobi_Factory Float (Some 1)) coarse_solve_its (9/10))
      else Some (Smoother_Factory Double (Jacobi_Factory Double (Some 1)) coarse_solve_its (9/10)))"
| "coarse_solver_switch BLOCK_JACOBI coarse_solve_its use_mixed_prec =
     (if use_mixed_prec
      then Some (Smoother_Factory Float (Jacobi_Factory Float None) coarse_solve_its (9/10))
      else Some (Smoother_Factory Double (Jacobi_Factory Double None) coarse_solve_its (9/10)))"
| "coarse_solver_switch IC coarse_solve_its use_mixed_prec =
     (if use_mixed_prec
      then Some (Smoother_Factory Float (Ic_Factory (Ic_fact Float False)) coarse_solve_its (9/10))
      else Some (Smoother_Factory Double (Ic_Factory (Ic_fact Double False)) coarse_solve_its (9/10)))"
| "coarse_solver_switch PARIC coarse_solve_its use_mixed_prec =
     (if use_mixed_prec
      then Some (Smoother_Factory Float (Ic_Factory (ParIc_fact Float False)) coarse_solve_its (9/10))
      else Some (Smoother_Factory Double (Ic_Factory (ParIc_fact Double False)) coarse_solve_its (9/10)))"
| "coarse_solver_switch CG coarse_solve_its use_mixed_prec =
     (if use_mixed_prec
      then Some (Solver_Factory Cg Float None None
                   (Some (Iteration (word_of_int coarse_solve_its))) None None None)
      else Some (Solver_Factory Cg Double None None
                   (Some (Iteration (word_of_int coarse_solve_its))) None None None))"

text \<open>The level selector lambda of the constructor (its matrix argument is not used).\<close>

definition selector :: "nat \<Rightarrow> nat" where
  "selector level = (if level = 0 then 0 else 1)"

text \<open>\<^verbatim>\<open>AMGPreconditioner::AMGPreconditioner\<close>.\<close>

definition AMGPreconditioner_ctor ::
  "GinkgoExecutor \<Rightarrow> SmootherType \<Rightarrow> int \<Rightarrow> int \<Rightarrow> SmootherType \<Rightarrow> int \<Rightarrow> bool \<Rightarrow> bool
     \<Rightarrow> GinkgoPreconditioner" where
  "AMGPreconditioner_ctor exec smoother pre_sweeps post_sweeps coarse_solver coarse_solve_its
       use_mixed_prec skip_sort =
     (let (smoother_gen, smoother_gen_s) = smoother_switch smoother pre_sweeps use_mixed_prec;
          coarse_solver_gen = coarse_solver_switch coarse_solver coarse_solve_its use_mixed_prec;
          mg_top_level_gen =
            (if skip_sort
             then (if use_mixed_prec then Some (AmgxPgm_Factory Double True True) else None)
             else Some (AmgxPgm_Factory Double True False));
          mg_level_gen = Some (AmgxPgm_Factory Double True True);
          mg_level_gen_s = Some (AmgxPgm_Factory Float True True);
          one_cycle = Iteration 1
      in (GinkgoPreconditioner_ctor exec)\<lparr>precond_gen :=
           (if use_mixed_prec then
              Some (Multigrid_Factory 64 [smoother_gen, smoother_gen_s]
                      [mg_top_level_gen, mg_level_gen_s] (Some selector)
                      [coarse_solver_gen] one_cycle True)
            else if skip_sort then
              Some (Multigrid_Factory 64 [smoother_gen] [mg_level_gen] None
                      [coarse_solver_gen] one_cycle True)
            else
              Some (Multigrid_Factory 64 [smoother_gen] [mg_top_level_gen, mg_level_gen]
                      (Some selector) [coarse_solver_gen] one_cycle True))\<rparr>)"

text \<open>
  Modelled from the spec: how the backend picks a component for a level is not among the
  sources. Following section 4.5, the level selector names, for a level, the entry of a
  component list with more than one entry; a list with one entry serves every level.
  \<open>None\<close> is a null factory or an index past the end of the list.
\<close>

definition component_at :: "(nat \<Rightarrow> nat) option \<Rightarrow> 'a option list \<Rightarrow> nat \<Rightarrow> 'a option" where
  "component_at sel comps level =
     (let i = (case sel of None \<Rightarrow> 0 | Some f \<Rightarrow> if length comps > 1 then f level else 0)
      in if i < length comps then comps ! i else None)"

text \<open>The value type a pipeline component works in.\<close>

fun precision_of :: "LinOpFactory \<Rightarrow> precision option" where
  "precision_of (Jacobi_Factory T b) = Some T"
| "precision_of (Ic_Factory (Ic_fact T bf)) = Some T"
| "precision_of (Ic_Factory (ParIc_fact T bf)) = Some T"
| "precision_of (Smoother_Factory T inner sweeps omega) = Some T"
| "precision_of (AmgxPgm_Factory T det skip) = Some T"
| "precision_of (Multigrid_Factory a b c d e f g) = None"
| "precision_of (Solver_Factory k T kd sp cr gp pf inner) = Some T"

text \<open>The precision of the pre-smoother and of the coarsening at a level, if there is one.\<close>

definition smoother_precision_at :: "LinOpFactory \<Rightarrow> nat \<Rightarrow> precision option" where
  "smoother_precision_at mg level =
     (case component_at (level_selector mg) (pre_smoother mg) level of
        None \<Rightarrow> None | Some f \<Rightarrow> precision_of f)"

definition mg_level_precision_at :: "LinOpFactory \<Rightarrow> nat \<Rightarrow> precision option" where
  "mg_level_precision_at mg level =
     (case component_at (level_selector mg) (mg_level mg) level of
        None \<Rightarrow> None | Some f \<Rightarrow> precision_of f)"

section \<open>Iterative solvers\<close>

text \<open>
  What \<^verbatim>\<open>gko::log::Convergence<>\<close> holds: the iteration count, the residual norm and the
  implicit squared residual norm as linear operators (null when not recorded), and the
  convergence flag. \<^verbatim>\<open>ResidualLogger<>\<close> is created from the system operator and the
  right-hand side and records a residual trace.
\<close>

record ConvergenceLogger =
  num_iterations :: nat
  residual_norm :: "LinOp option"
  implicit_sq_resnorm :: "LinOp option"
  has_converged :: bool

record ResidualLogger =
  rl_matrix :: "LinOp option"
  rl_b :: LinOp
  rl_trace :: "double list"

text \<open>
  \<^verbatim>\<open>GinkgoIterativeSolver\<close> with the members the source reads and writes.
  \<open>combined_factory_loggers\<close> and \<open>solver_loggers\<close> are the loggers attached to the
  objects \<^verbatim>\<open>combined_factory\<close> and \<^verbatim>\<open>solver\<close> point to. \<open>final_iter\<close> and \<open>converged\<close> are
  \<open>None\<close> until \<^verbatim>\<open>Mult\<close> assigns them. \<open>m\<close> is the Krylov dimension member of
  \<^verbatim>\<open>GMRESSolver\<close> and \<^verbatim>\<open>CBGMRESSolver\<close>.
\<close>

record GinkgoIterativeSolver =
  executor :: "Executor option"
  iterative_mode :: bool
  use_implicit_res_norm :: bool
  print_level :: int
  max_iter :: int
  rel_tol :: real
  abs_tol :: real
  rel_criterion :: "CriterionFactory option"
  abs_criterion :: "CriterionFactory option"
  imp_rel_criterion :: "CriterionFactory option"
  imp_abs_criterion :: "CriterionFactory option"
  combined_factory :: "CriterionFactory option"
  combined_factory_loggers :: "ConvergenceLogger list"
  needs_wrapped_vecs :: bool
  sub_op_needs_wrapped_vecs :: bool
  system_oper :: "LinOp option"
  solver_gen :: "LinOpFactory option"
  solver :: "LinOp option"
  solver_loggers :: "ResidualLogger list"
  convergence_logger :: "ConvergenceLogger option"
  residual_logger :: "ResidualLogger option"
  final_iter :: "int option"
  converged :: "int option"
  m :: int

text \<open>
  \<^verbatim>\<open>GinkgoIterativeSolver::update_stop_factory\<close>. \<^verbatim>\<open>static_cast<unsigned long>(max_iter)\<close>
  is the conversion of the \<^verbatim>\<open>int\<close> to a 64-bit word, which wraps a negative value. The
  square root is the real one (for a negative tolerance the C function gives NaN, which
  has no counterpart here).
\<close>

definition update_stop_factory :: "GinkgoIterativeSolver \<Rightarrow> GinkgoIterativeSolver" where
  "update_stop_factory this =
     (if use_implicit_res_norm this then
        (let imp_rel = ImplicitResidualNorm (sqrt (rel_tol this)) initial_resnorm;
             imp_abs = ImplicitResidualNorm (sqrt (abs_tol this)) absolute
         in this\<lparr>imp_rel_criterion := Some imp_rel,
                 imp_abs_criterion := Some imp_abs,
                 combined_factory :=
                   Some (Combined [imp_rel, imp_abs, Iteration (word_of_int (max_iter this))]),
                 combined_factory_loggers := []\<rparr>)
      else
        (let rel_c = ResidualNorm (rel_tol this) initial_resnorm;
             abs_c = ResidualNorm (abs_tol this) absolute
         in this\<lparr>rel_criterion := Some rel_c,
                 abs_criterion := Some abs_c,
                 combined_factory :=
                   Some (Combined [rel_c, abs_c, Iteration (word_of_int (max_iter this))]),
                 combined_factory_loggers := []\<rparr>))"

text \<open>
  \<^verbatim>\<open>GinkgoIterativeSolver::GinkgoIterativeSolver(GinkgoExecutor &exec, bool
  use_implicit_res_norm)\<close>. Members the constructor does not assign are null; the
  \<^verbatim>\<open>Solver\<close> base class starts with \<^verbatim>\<open>iterative_mode = false\<close>.
\<close>

definition GinkgoIterativeSolver_ctor :: "GinkgoExecutor \<Rightarrow> bool \<Rightarrow> GinkgoIterativeSolver" where
  "GinkgoIterativeSolver_ctor exec use_implicit =
     (update_stop_factory
        \<lparr>executor = ge_executor exec, iterative_mode = False,
         use_implicit_res_norm = use_implicit, print_level = - 1,
         max_iter = 10, rel_tol = 0, abs_tol = 0,
         rel_criterion = None, abs_criterion = None,
         imp_rel_criterion = None, imp_abs_criterion = None,
         combined_factory = None, combined_factory_loggers = [],
         needs_wrapped_vecs = False, sub_op_needs_wrapped_vecs = False,
         system_oper = None, solver_gen = None, solver = None, solver_loggers = [],
         convergence_logger = None, residual_logger = None,
         final_iter = None, converged = None, m = 0\<rparr>)
       \<lparr>needs_wrapped_vecs := False, sub_op_needs_wrapped_vecs := False\<rparr>"

text \<open>\<^verbatim>\<open>GinkgoIterativeSolver::initialize_ginkgo_log\<close>: two fresh loggers.\<close>

definition initialize_ginkgo_log :: "GinkgoIterativeSolver \<Rightarrow> LinOp \<Rightarrow> GinkgoIterativeSolver" where
  "initialize_ginkgo_log this b =
     this\<lparr>convergence_logger :=
            Some \<lparr>num_iterations = 0, residual_norm = None, implicit_sq_resnorm = None,
                  has_converged = False\<rparr>,
          residual_logger :=
            Some \<lparr>rl_matrix = system_oper this, rl_b = b, rl_trace = []\<rparr>\<rparr>"

subsection \<open>Reading backend values on the host\<close>

fun get_executor :: "LinOp \<Rightarrow> Executor" where
  "get_executor (Csr ex r c dev vals cols rows) = ex"
| "get_executor (OperatorWrapper ex n A) = ex"
| "get_executor (Dense ex r c vals) = ex"
| "get_executor (VectorWrapper ex n v own) = ex"
| "get_executor (Generated f A) = get_executor A"

fun get_size :: "LinOp \<Rightarrow> nat \<times> nat" where
  "get_size (Csr ex r c dev vals cols rows) = (nat r, nat c)"
| "get_size (OperatorWrapper ex n A) = (nat n, nat n)"
| "get_size (Dense ex r c vals) = (r, c)"
| "get_size (VectorWrapper ex n v own) = (nat n, 1)"
| "get_size (Generated f A) = get_size A"

text \<open>\<^verbatim>\<open>gko::as<gko::matrix::Dense<double>>\<close> and \<^verbatim>\<open>gko::as<VectorWrapper>\<close>.\<close>

fun as_Dense :: "LinOp option \<Rightarrow> error + LinOp" where
  "as_Dense (Some (Dense ex r c vals)) = Inr (Dense ex r c vals)"
| "as_Dense other = Inl NotSupported"

fun as_VectorWrapper :: "LinOp \<Rightarrow> error + LinOp" where
  "as_VectorWrapper (VectorWrapper ex n v own) = Inr (VectorWrapper ex n v own)"
| "as_VectorWrapper other = Inl NotSupported"

text \<open>
  \<^verbatim>\<open>Dense::at(row, col)\<close>, a read by the host of entry \<open>row * cols + col\<close> of the values
  array: valid only for an array in host memory and an index inside it.
\<close>

fun Dense_at :: "LinOp \<Rightarrow> nat \<Rightarrow> nat \<Rightarrow> error + double" where
  "Dense_at (Dense ex r c vals) row col =
     (if mem_space_of ex \<noteq> HostMemory then Inl InvalidMemoryAccess
      else if row * c + col < length vals then Inr (vals ! (row * c + col))
      else Inl OutOfBoundsRead)"
| "Dense_at other row col = Inl NotSupported"

text \<open>
  \<^verbatim>\<open>dst_exec->copy_from(src_exec, 1, src->get_const_values(), &value)\<close>: one element is
  copied to the host from an array taken to live in the memory of \<open>src_exec\<close>; valid only
  if the array does live there and is not empty.
\<close>

fun copy_from_1 :: "Executor \<Rightarrow> LinOp \<Rightarrow> error + double" where
  "copy_from_1 src_exec (Dense ex r c vals) =
     (if mem_space_of ex \<noteq> mem_space_of src_exec then Inl InvalidMemoryAccess
      else if 0 < length vals then Inr (vals ! 0)
      else Inl OutOfBoundsRead)"
| "copy_from_1 src_exec other = Inl NotSupported"

text \<open>
  \<^verbatim>\<open>Dense<double>::create(master, dim<2>{1, 1})\<close> followed by \<^verbatim>\<open>copy_from(src)\<close>: a copy of
  \<open>src\<close> that lives on \<open>master\<close>.
\<close>

fun copy_to_master :: "Executor \<Rightarrow> LinOp \<Rightarrow> LinOp" where
  "copy_to_master master (Dense ex r c vals) = Dense master r c vals"
| "copy_to_master master other = other"

text \<open>
  Lines 362--386 of \<^verbatim>\<open>GinkgoIterativeSolver::Mult\<close>: the value assigned to
  \<^verbatim>\<open>final_res_norm\<close>.
\<close>

definition final_res_norm_of ::
  "bool \<Rightarrow> Executor \<Rightarrow> ConvergenceLogger \<Rightarrow> error + double" where
  "final_res_norm_of use_implicit ex logger =
     (if use_implicit then
        (case as_Dense (implicit_sq_resnorm logger) of
           Inl e \<Rightarrow> Inl e
         | Inr imp_residual_norm_d \<Rightarrow>
             Dense_at (copy_to_master (get_master ex) imp_residual_norm_d) 0 0)
      else
        (case as_Dense (residual_norm logger) of
           Inl e \<Rightarrow> Inl e
         | Inr residual_norm_d \<Rightarrow>
             Dense_at (copy_to_master (get_master ex) residual_norm_d) 0 0))"

subsection \<open>Solving\<close>

text \<open>
  The backend solve \<^verbatim>\<open>solver->apply(gko_x, gko_y)\<close> is a parameter: given the generated
  solver, the right-hand side and the start vector, it either throws or leaves an iterate
  in \<open>y\<close>, fills the convergence logger and produces a residual trace.
\<close>

record SolveResult =
  sr_y :: Vector
  sr_log :: ConvergenceLogger
  sr_trace :: "double list"

type_synonym backend = "LinOp \<Rightarrow> LinOp \<Rightarrow> LinOp \<Rightarrow> error + SolveResult"

record MultResult =
  mr_this :: GinkgoIterativeSolver
  mr_y :: Vector
  mr_out :: "message list"
  mr_err :: "message list"

text \<open>
  \<^verbatim>\<open>GinkgoIterativeSolver::Mult(const Vector &x, Vector &y)\<close>: the members written, the
  contents of \<open>y\<close> and what was printed; or the error.
\<close>

definition wrap_vector :: "GinkgoIterativeSolver \<Rightarrow> Executor \<Rightarrow> Vector \<Rightarrow> LinOp" where
  "wrap_vector this ex v =
     (if \<not> needs_wrapped_vecs this
      then Dense ex (length v) 1 v
      else VectorWrapper ex (int (length v)) v False)"

text \<open>Lines 334--345: the loggers of this call are attached.\<close>

definition attach_loggers :: "GinkgoIterativeSolver \<Rightarrow> error + GinkgoIterativeSolver" where
  "attach_loggers this =
     (case convergence_logger this of
        None \<Rightarrow> Inl (Abort ''convergence logger not initialized'')
      | Some cl \<Rightarrow>
          (case (if print_level this = 1
                 then (case residual_logger this of
                         None \<Rightarrow> Inl (Abort ''residual logger not initialized'')
                       | Some rl \<Rightarrow>
                           (case solver this of
                              None \<Rightarrow> Inl NullDereference
                            | Some slv \<Rightarrow> Inr (this\<lparr>solver_loggers := [rl]\<rparr>)))
                 else Inr this) of
             Inl e \<Rightarrow> Inl e
           | Inr this1 \<Rightarrow>
               (case combined_factory this1 of
                  None \<Rightarrow> Inl NullDereference
                | Some cf \<Rightarrow> Inr (this1\<lparr>combined_factory_loggers := [cl]\<rparr>))))"

text \<open>Lines 350--407: what is read from the loggers after the solve, and what is printed.\<close>

definition report ::
  "GinkgoIterativeSolver \<Rightarrow> Executor \<Rightarrow> SolveResult \<Rightarrow> error + MultResult" where
  "report this ex r =
     (let logger = sr_log r;
          this1 = this\<lparr>convergence_logger := Some logger,
                       residual_logger :=
                         (if print_level this = 1
                          then map_option (\<lambda>rl. rl\<lparr>rl_trace := sr_trace r\<rparr>) (residual_logger this)
                          else residual_logger this),
                       final_iter := Some (int (num_iterations logger))\<rparr>
      in case final_res_norm_of (use_implicit_res_norm this1) ex logger of
           Inl e \<Rightarrow> Inl e
         | Inr final_res_norm \<Rightarrow>
             (let this2 = this1\<lparr>converged := Some (if has_converged logger then 1 else 0)\<rparr>;
                  out1 = (if print_level this2 = 1 then [ResidualTrace (sr_trace r)] else []);
                  err = (if converged this2 = Some 0 then [Text ''No convergence!''] else []);
                  out2 = (if print_level this2 \<ge> 2 \<and> converged this2 = Some 1
                          then [ConvergedIn (int (num_iterations logger)) final_res_norm]
                          else [])
              in Inr \<lparr>mr_this = this2, mr_y = sr_y r, mr_out = out1 @ out2, mr_err = err\<rparr>))"

definition Mult ::
  "backend \<Rightarrow> GinkgoIterativeSolver \<Rightarrow> Vector \<Rightarrow> Vector \<Rightarrow> error + MultResult" where
  "Mult backend this x y0 =
     (if system_oper this = None then Inl (Abort ''System matrix or operator not initialized'')
      else case executor this of
        None \<Rightarrow> Inl (Abort ''executor is not initialized'')
      | Some ex \<Rightarrow>
      if length y0 \<noteq> length x then Inl (Abort ''Mismatching sizes for rhs and solution'')
      else
        (let y = (if \<not> iterative_mode this then replicate (length y0) (Finite 0) else y0);
             gko_x = wrap_vector this ex x;
             gko_y = wrap_vector this ex y
         in case attach_loggers (initialize_ginkgo_log this gko_x) of
              Inl e \<Rightarrow> Inl e
            | Inr this1 \<Rightarrow>
                (case solver this1 of
                   None \<Rightarrow> Inl NullDereference
                 | Some slv \<Rightarrow>
                     (case backend slv gko_x gko_y of
                        Inl e \<Rightarrow> Inl e
                      | Inr r \<Rightarrow> report this1 ex r))))"

text \<open>
  Lines 413--427 of \<^verbatim>\<open>GinkgoIterativeSolver::SetOperator\<close>: when an operator is bound,
  \<^verbatim>\<open>needs_wrapped_vecs\<close> is reset unless a sub-operator needs wrapped vectors, and the
  operator and the solver generated for it are released.
\<close>

definition release_binding :: "GinkgoIterativeSolver \<Rightarrow> GinkgoIterativeSolver" where
  "release_binding this =
     (if system_oper this \<noteq> None then
        (if needs_wrapped_vecs this = True \<and> sub_op_needs_wrapped_vecs this = False
         then this\<lparr>needs_wrapped_vecs := False\<rparr> else this)
          \<lparr>system_oper := None, solver := None, solver_loggers := []\<rparr>
      else this)"

text \<open>Line 466: \<^verbatim>\<open>solver = solver_gen->generate(system_oper)\<close>.\<close>

definition generate_solver ::
  "GinkgoIterativeSolver \<Rightarrow> error \<times> GinkgoIterativeSolver + GinkgoIterativeSolver" where
  "generate_solver this =
     (case solver_gen this of
        None \<Rightarrow> Inl (NullDereference, this)
      | Some gen \<Rightarrow>
          (case system_oper this of
             None \<Rightarrow> Inl (NullDereference, this)
           | Some A \<Rightarrow> Inr (this\<lparr>solver := Some (Generated gen A)\<rparr>)))"

text \<open>
  \<^verbatim>\<open>GinkgoIterativeSolver::SetOperator\<close>. A failure carries the state of the object at the
  point where the error is raised.
\<close>

definition SetOperator ::
  "GinkgoIterativeSolver \<Rightarrow> Operator \<Rightarrow> error \<times> GinkgoIterativeSolver + GinkgoIterativeSolver" where
  "SetOperator this0 op =
     (let this = release_binding this0
      in case op of
           SparseMatrixOp op_mat \<Rightarrow>
             (if sm_Height op_mat \<noteq> sm_Width op_mat
              then Inl (Abort ''System matrix is not square'', this)
              else case executor this of
                None \<Rightarrow> Inl (NullDereference, this)
              | Some ex \<Rightarrow>
                  (let on_device = (ex \<noteq> get_master ex);
                       nnz = sm_Capacity op_mat
                   in generate_solver
                        (this\<lparr>system_oper :=
                           Some (Csr ex (sm_Height op_mat) (sm_Width op_mat) on_device
                                   (take (nat nnz) (sm_Data op_mat))
                                   (take (nat nnz) (sm_J op_mat))
                                   (take (nat (sm_Height op_mat + 1)) (sm_I op_mat)))\<rparr>)))
         | OtherOp g \<Rightarrow>
             (case executor this of
                None \<Rightarrow> Inl (NullDereference, this\<lparr>needs_wrapped_vecs := True\<rparr>)
              | Some ex \<Rightarrow>
                  generate_solver
                    (this\<lparr>needs_wrapped_vecs := True,
                          system_oper := Some (OperatorWrapper ex (op_Height g) g)\<rparr>)))"

subsection \<open>Solver classes\<close>

text \<open>
  The accessors below are declared in \<^verbatim>\<open>ginkgo.hpp\<close>, which is not among the sources, as
  is \<^verbatim>\<open>EnableGinkgoSolver\<close>, through which every solver class calls the constructor of
  \<^verbatim>\<open>GinkgoIterativeSolver\<close> with its choice of residual mode.
\<close>

text \<open>
  Modelled from the spec: \<^verbatim>\<open>GinkgoPreconditioner::HasGeneratedPreconditioner\<close>, missing with
  \<^verbatim>\<open>ginkgo.hpp\<close>; section 4.5 names it as the test for a previously generated instance.
\<close>

definition HasGeneratedPreconditioner :: "GinkgoPreconditioner \<Rightarrow> bool" where
  "HasGeneratedPreconditioner p = has_generated_precond p"

text \<open>
  Modelled from the spec: \<^verbatim>\<open>GinkgoPreconditioner::GetGeneratedPreconditioner\<close>, missing with
  \<^verbatim>\<open>ginkgo.hpp\<close>; section 4.5 names it as the access to the generated instance.
\<close>

definition GetGeneratedPreconditioner :: "GinkgoPreconditioner \<Rightarrow> LinOp option" where
  "GetGeneratedPreconditioner p = generated_precond p"

text \<open>
  Modelled from the spec: \<^verbatim>\<open>GinkgoPreconditioner::GetFactory\<close>, missing with \<^verbatim>\<open>ginkgo.hpp\<close>;
  by section 4.5 it gives the ungenerated factory description.
\<close>

definition GetFactory :: "GinkgoPreconditioner \<Rightarrow> LinOpFactory option" where
  "GetFactory p = precond_gen p"

text \<open>
  Modelled from the spec: \<^verbatim>\<open>GinkgoIterativeSolver::UsesVectorWrappers\<close>, missing with
  \<^verbatim>\<open>ginkgo.hpp\<close>; by section 4.4 a stationary iteration inherits the inner solver's
  requirement of wrapped vectors, which is the member \<^verbatim>\<open>needs_wrapped_vecs\<close>.
\<close>

definition UsesVectorWrappers :: "GinkgoIterativeSolver \<Rightarrow> bool" where
  "UsesVectorWrappers this = needs_wrapped_vecs this"

text \<open>
  Modelled from the spec: \<^verbatim>\<open>GinkgoIterativeSolver::GetFactory\<close>, missing with \<^verbatim>\<open>ginkgo.hpp\<close>;
  it gives the stored solver factory (section 4.4).
\<close>

definition GetSolverFactory :: "GinkgoIterativeSolver \<Rightarrow> LinOpFactory option" where
  "GetSolverFactory this = solver_gen this"

text \<open>\<^verbatim>\<open>dynamic_cast<const OperatorWrapper*>(p.get())\<close> is not null.\<close>

fun is_OperatorWrapper :: "LinOp option \<Rightarrow> bool" where
  "is_OperatorWrapper (Some (OperatorWrapper ex n A)) = True"
| "is_OperatorWrapper other = False"

text \<open>
  The body shared by the constructors without a preconditioner: the factory of the given
  kind is built with the criteria in \<^verbatim>\<open>combined_factory\<close>, a Krylov dimension and a
  storage precision where the constructor sets them.
\<close>

definition build_solver ::
  "SolverKind \<Rightarrow> 64 word option \<Rightarrow> storage_precision option \<Rightarrow> GinkgoIterativeSolver
     \<Rightarrow> GinkgoIterativeSolver" where
  "build_solver kind kdim prec this =
     this\<lparr>solver_gen :=
            Some (Solver_Factory kind Double kdim prec (combined_factory this) None None None)\<rparr>"

text \<open>
  The body shared by the constructors that take a \<^verbatim>\<open>GinkgoPreconditioner\<close>: a generated
  preconditioner is passed on as it is, and both flags are set when it is an
  \<^verbatim>\<open>OperatorWrapper\<close>; otherwise the preconditioner's factory is passed on.
\<close>

definition build_preconditioned_solver ::
  "SolverKind \<Rightarrow> 64 word option \<Rightarrow> storage_precision option \<Rightarrow> GinkgoIterativeSolver
     \<Rightarrow> GinkgoPreconditioner \<Rightarrow> GinkgoIterativeSolver" where
  "build_preconditioned_solver kind kdim prec this preconditioner =
     (if HasGeneratedPreconditioner preconditioner then
        (let this1 = this\<lparr>solver_gen :=
                      Some (Solver_Factory kind Double kdim prec (combined_factory this)
                              (GetGeneratedPreconditioner preconditioner) None None)\<rparr>
         in if is_OperatorWrapper (GetGeneratedPreconditioner preconditioner)
            then this1\<lparr>sub_op_needs_wrapped_vecs := True, needs_wrapped_vecs := True\<rparr>
            else this1)
      else
        this\<lparr>solver_gen :=
               Some (Solver_Factory kind Double kdim prec (combined_factory this)
                       None (GetFactory preconditioner) None)\<rparr>)"

text \<open>The Krylov dimension a GMRES constructor passes on: none when \<^verbatim>\<open>m == 0\<close>.\<close>

definition krylov_dim_of :: "int \<Rightarrow> 64 word option" where
  "krylov_dim_of kdim = (if kdim = 0 then None else Some (word_of_int kdim))"

definition CGSolver_ctor :: "GinkgoExecutor \<Rightarrow> GinkgoIterativeSolver" where
  "CGSolver_ctor exec = build_solver Cg None None (GinkgoIterativeSolver_ctor exec True)"

definition CGSolver_precond_ctor ::
  "GinkgoExecutor \<Rightarrow> GinkgoPreconditioner \<Rightarrow> GinkgoIterativeSolver" where
  "CGSolver_precond_ctor exec preconditioner =
     build_preconditioned_solver Cg None None (GinkgoIterativeSolver_ctor exec True) preconditioner"

definition BICGSTABSolver_ctor :: "GinkgoExecutor \<Rightarrow> GinkgoIterativeSolver" where
  "BICGSTABSolver_ctor exec =
     build_solver Bicgstab None None (GinkgoIterativeSolver_ctor exec True)"

definition BICGSTABSolver_precond_ctor ::
  "GinkgoExecutor \<Rightarrow> GinkgoPreconditioner \<Rightarrow> GinkgoIterativeSolver" where
  "BICGSTABSolver_precond_ctor exec preconditioner =
     build_preconditioned_solver Bicgstab None None (GinkgoIterativeSolver_ctor exec True)
       preconditioner"

definition CGSSolver_ctor :: "GinkgoExecutor \<Rightarrow> GinkgoIterativeSolver" where
  "CGSSolver_ctor exec = build_solver Cgs None None (GinkgoIterativeSolver_ctor exec True)"

definition CGSSolver_precond_ctor ::
  "GinkgoExecutor \<Rightarrow> GinkgoPreconditioner \<Rightarrow> GinkgoIterativeSolver" where
  "CGSSolver_precond_ctor exec preconditioner =
     build_preconditioned_solver Cgs None None (GinkgoIterativeSolver_ctor exec True) preconditioner"

definition FCGSolver_ctor :: "GinkgoExecutor \<Rightarrow> GinkgoIterativeSolver" where
  "FCGSolver_ctor exec = build_solver Fcg None None (GinkgoIterativeSolver_ctor exec True)"

definition FCGSolver_precond_ctor ::
  "GinkgoExecutor \<Rightarrow> GinkgoPreconditioner \<Rightarrow> GinkgoIterativeSolver" where
  "FCGSolver_precond_ctor exec preconditioner =
     build_preconditioned_solver Fcg None None (GinkgoIterativeSolver_ctor exec True) preconditioner"

definition GMRESSolver_ctor :: "GinkgoExecutor \<Rightarrow> int \<Rightarrow> GinkgoIterativeSolver" where
  "GMRESSolver_ctor exec kdim =
     build_solver Gmres (krylov_dim_of kdim) None
       ((GinkgoIterativeSolver_ctor exec False)\<lparr>m := kdim\<rparr>)"

definition GMRESSolver_precond_ctor ::
  "GinkgoExecutor \<Rightarrow> GinkgoPreconditioner \<Rightarrow> int \<Rightarrow> GinkgoIterativeSolver" where
  "GMRESSolver_precond_ctor exec preconditioner kdim =
     build_preconditioned_solver Gmres (krylov_dim_of kdim) None
       ((GinkgoIterativeSolver_ctor exec False)\<lparr>m := kdim\<rparr>) preconditioner"

definition CBGMRESSolver_ctor ::
  "GinkgoExecutor \<Rightarrow> int \<Rightarrow> storage_precision \<Rightarrow> GinkgoIterativeSolver" where
  "CBGMRESSolver_ctor exec kdim prec =
     build_solver CbGmres (krylov_dim_of kdim) (Some prec)
       ((GinkgoIterativeSolver_ctor exec False)\<lparr>m := kdim\<rparr>)"

definition CBGMRESSolver_precond_ctor ::
  "GinkgoExecutor \<Rightarrow> GinkgoPreconditioner \<Rightarrow> int \<Rightarrow> storage_precision \<Rightarrow> GinkgoIterativeSolver" where
  "CBGMRESSolver_precond_ctor exec preconditioner kdim prec =
     build_preconditioned_solver CbGmres (krylov_dim_of kdim) (Some prec)
       ((GinkgoIterativeSolver_ctor exec False)\<lparr>m := kdim\<rparr>) preconditioner"

definition IRSolver_ctor :: "GinkgoExecutor \<Rightarrow> GinkgoIterativeSolver" where
  "IRSolver_ctor exec = build_solver Ir None None (GinkgoIterativeSolver_ctor exec False)"

definition IRSolver_inner_ctor ::
  "GinkgoExecutor \<Rightarrow> GinkgoIterativeSolver \<Rightarrow> GinkgoIterativeSolver" where
  "IRSolver_inner_ctor exec inner_solver =
     (let this = GinkgoIterativeSolver_ctor exec False;
          this1 = this\<lparr>solver_gen :=
                    Some (Solver_Factory Ir Double None None (combined_factory this)
                            None None (GetSolverFactory inner_solver))\<rparr>
      in if UsesVectorWrappers inner_solver
         then this1\<lparr>sub_op_needs_wrapped_vecs := True, needs_wrapped_vecs := True\<rparr>
         else this1)"

text \<open>
  \<^verbatim>\<open>GMRESSolver::SetKDim\<close> (\<open>kind = Gmres\<close>) and \<^verbatim>\<open>CBGMRESSolver::SetKDim\<close>
  (\<open>kind = CbGmres\<close>), with \<open>kdim\<close> for the argument \<^verbatim>\<open>dim\<close>: the factory parameter is overwritten and, when a solver has been
  generated, so is its own Krylov dimension. The two \<^verbatim>\<open>gko::as\<close> casts fail on a factory
  or solver of another kind.
\<close>

fun set_krylov_dim :: "SolverKind \<Rightarrow> int \<Rightarrow> LinOpFactory \<Rightarrow> error + LinOpFactory" where
  "set_krylov_dim kind kdim (Solver_Factory k T kd sp cr gp pf inner) =
     (if k = kind then Inr (Solver_Factory k T (Some (word_of_int kdim)) sp cr gp pf inner)
      else Inl NotSupported)"
| "set_krylov_dim kind kdim other = Inl NotSupported"

definition SetKDim ::
  "SolverKind \<Rightarrow> GinkgoIterativeSolver \<Rightarrow> int \<Rightarrow> error + GinkgoIterativeSolver" where
  "SetKDim kind this kdim =
     (case solver_gen this of
        None \<Rightarrow> Inl NotSupported
      | Some gen \<Rightarrow>
          (case set_krylov_dim kind kdim gen of
             Inl e \<Rightarrow> Inl e
           | Inr gen1 \<Rightarrow>
               (let this1 = this\<lparr>m := kdim, solver_gen := Some gen1\<rparr>
                in case solver this1 of
                     None \<Rightarrow> Inr this1
                   | Some (Generated g A) \<Rightarrow>
                       (case set_krylov_dim kind kdim g of
                          Inl e \<Rightarrow> Inl e
                        | Inr g1 \<Rightarrow> Inr (this1\<lparr>solver := Some (Generated g1 A)\<rparr>))
                   | Some other \<Rightarrow> Inl NotSupported)))"

text \<open>
  The states a solver object can be in: those a constructor returns, and those an
  operation of the class leaves behind, whether it returns or raises.
\<close>

inductive reachable :: "GinkgoIterativeSolver \<Rightarrow> bool" where
  r_CG: "reachable (CGSolver_ctor exec)"
| r_CG_precond: "reachable (CGSolver_precond_ctor exec p)"
| r_BICGSTAB: "reachable (BICGSTABSolver_ctor exec)"
| r_BICGSTAB_precond: "reachable (BICGSTABSolver_precond_ctor exec p)"
| r_CGS: "reachable (CGSSolver_ctor exec)"
| r_CGS_precond: "reachable (CGSSolver_precond_ctor exec p)"
| r_FCG: "reachable (FCGSolver_ctor exec)"
| r_FCG_precond: "reachable (FCGSolver_precond_ctor exec p)"
| r_GMRES: "reachable (GMRESSolver_ctor exec kdim)"
| r_GMRES_precond: "reachable (GMRESSolver_precond_ctor exec p kdim)"
| r_CBGMRES: "reachable (CBGMRESSolver_ctor exec kdim prec)"
| r_CBGMRES_precond: "reachable (CBGMRESSolver_precond_ctor exec p kdim prec)"
| r_IR: "reachable (IRSolver_ctor exec)"
| r_IR_inner: "reachable (IRSolver_inner_ctor exec inner_solver)"
| r_SetOperator: "reachable this \<Longrightarrow> SetOperator this op = Inr this' \<Longrightarrow> reachable this'"
| r_SetOperator_raised:
    "reachable this \<Longrightarrow> SetOperator this op = Inl (e, this') \<Longrightarrow> reachable this'"
| r_Mult: "reachable this \<Longrightarrow> Mult backend this x y = Inr r \<Longrightarrow> reachable (mr_this r)"
| r_update_stop_factory: "reachable this \<Longrightarrow> reachable (update_stop_factory this)"
| r_SetKDim: "reachable this \<Longrightarrow> SetKDim kind this kdim = Inr this' \<Longrightarrow> reachable this'"

section \<open>The operator wrapper\<close>

text \<open>
  \<^verbatim>\<open>OperatorWrapper::apply_impl(b, x)\<close> of the wrapper around \<open>wrapped_oper\<close>: the new
  contents of \<open>x\<close>.
\<close>

definition apply_impl :: "GenericOperator \<Rightarrow> LinOp \<Rightarrow> LinOp \<Rightarrow> error + LinOp" where
  "apply_impl wrapped_oper b x =
     (case as_VectorWrapper b of
        Inr (VectorWrapper bex bn mfem_b bown) \<Rightarrow>
          (case as_VectorWrapper x of
             Inr (VectorWrapper xex xn mfem_x xown) \<Rightarrow>
               Inr (VectorWrapper xex xn (op_Mult wrapped_oper mfem_b) xown)
           | other \<Rightarrow> Inl NotSupported)
      | other \<Rightarrow> Inl NotSupported)"

text \<open>
  Lines 237--262: the value read from a scalar operand. An operand whose executor is its
  own master is read with \<^verbatim>\<open>at(0, 0)\<close>; any other is copied to the host, with the
  executor of the wrapper as the source of the copy.
\<close>

definition read_scalar :: "Executor \<Rightarrow> LinOp \<Rightarrow> error + double" where
  "read_scalar this_exec alpha =
     (if get_executor alpha = get_master (get_executor alpha) then
        (case as_Dense (Some alpha) of Inl e \<Rightarrow> Inl e | Inr d \<Rightarrow> Dense_at d 0 0)
      else
        (case as_Dense (Some alpha) of Inl e \<Rightarrow> Inl e | Inr d \<Rightarrow> copy_from_1 this_exec d))"

text \<open>
  Modelled from the spec: MFEM's \<^verbatim>\<open>Vector::operator*=(double)\<close> is in
  \<^verbatim>\<open>linalg/vector.cpp\<close>, not among the sources. Following the comment of line 263 (scale
  by beta) and the term \<open>beta * y\<close> of section 4.2, every entry is multiplied by the
  scalar, in double arithmetic.
\<close>

definition Vector_scale :: "Vector \<Rightarrow> double \<Rightarrow> Vector" where
  "Vector_scale v c = map (\<lambda>vi. dmul vi c) v"

text \<open>
  Modelled from the spec: MFEM's \<^verbatim>\<open>Vector::Add(a, Va)\<close> is in \<^verbatim>\<open>linalg/vector.cpp\<close>, not
  among the sources. Following the comment of line 275 (scale by alpha and add) and the
  term \<open>alpha * Op(x)\<close> of section 4.2, \<open>a\<close> times the entry of \<open>Va\<close> is added to every
  entry, in double arithmetic with the product rounded before the sum; the sizes must
  agree. MFEM leaves the vector as it is when \<open>a\<close> compares equal to zero. (For \<open>a = 1\<close>,
  the value the claims are about, the product is exact, so that a compiler fusing product
  and sum into one rounding changes nothing.)
\<close>

definition Vector_Add :: "Vector \<Rightarrow> double \<Rightarrow> Vector \<Rightarrow> Vector" where
  "Vector_Add v a Va =
     (if is_zero a then v else map2 (\<lambda>vi ai. dadd vi (dmul a ai)) v Va)"

text \<open>
  \<^verbatim>\<open>OperatorWrapper::apply_impl(alpha, b, beta, x)\<close> of the wrapper on \<open>this_exec\<close> around
  \<open>wrapped_oper\<close>: \<open>x = alpha * op(b) + beta * x\<close>.
\<close>

definition apply_impl_scaled ::
  "Executor \<Rightarrow> GenericOperator \<Rightarrow> LinOp \<Rightarrow> LinOp \<Rightarrow> LinOp \<Rightarrow> LinOp \<Rightarrow> error + LinOp" where
  "apply_impl_scaled this_exec wrapped_oper alpha b beta x =
     (case as_VectorWrapper b of
        Inr (VectorWrapper bex bn mfem_b bown) \<Rightarrow>
          (case as_VectorWrapper x of
             Inr (VectorWrapper xex xn mfem_x xown) \<Rightarrow>
               (if fst (get_size alpha) > 1 \<or> snd (get_size alpha) > 1 then
                  Inl (BadDimension ''alpha'' (fst (get_size alpha)) (snd (get_size alpha)))
                else if fst (get_size beta) > 1 \<or> snd (get_size beta) > 1 then
                  Inl (BadDimension ''beta'' (fst (get_size beta)) (snd (get_size beta)))
                else
                  (case read_scalar this_exec alpha of
                     Inl e \<Rightarrow> Inl e
                   | Inr alpha_f \<Rightarrow>
                       (case read_scalar this_exec beta of
                          Inl e \<Rightarrow> Inl e
                        | Inr beta_f \<Rightarrow>
                            (let mfem_x1 = Vector_scale mfem_x beta_f;
                                 mfem_tmp = op_Mult wrapped_oper mfem_b
                             in Inr (VectorWrapper xex xn
                                       (Vector_Add mfem_x1 alpha_f mfem_tmp) xown)))))
           | other \<Rightarrow> Inl NotSupported)
      | other \<Rightarrow> Inl NotSupported)"



section \<open>Stopping criteria at work\<close>

text \<open>
  Modelled from the spec: the check a criterion makes during a solve belongs to the
  backend and is not among the sources. Following section 4.3, the relative criterion
  stops when the residual norm is at most the reduction factor times the initial residual
  norm, the absolute criterion when it is at most the reduction factor, the implicit
  criteria compare the square root of the implicitly tracked squared norm instead, the
  iteration criterion stops once the iteration count reaches \<^verbatim>\<open>max_iters\<close>, and a
  combination stops when any of its parts does. \<open>r0\<close> is the initial residual norm, \<open>it\<close>
  the number of iterations done, \<open>r\<close> and \<open>sq\<close> the current residual norm and implicit
  squared residual norm.
\<close>

fun should_stop :: "CriterionFactory \<Rightarrow> real \<Rightarrow> nat \<Rightarrow> real \<Rightarrow> real \<Rightarrow> bool" where
  "should_stop (ResidualNorm f initial_resnorm) r0 it r sq = (r \<le> f * r0)"
| "should_stop (ResidualNorm f absolute) r0 it r sq = (r \<le> f)"
| "should_stop (ImplicitResidualNorm f initial_resnorm) r0 it r sq = (sqrt \<bar>sq\<bar> \<le> f * r0)"
| "should_stop (ImplicitResidualNorm f absolute) r0 it r sq = (sqrt \<bar>sq\<bar> \<le> f)"
| "should_stop (Iteration n) r0 it r sq = (unat n \<le> it)"
| "should_stop (Combined cs) r0 it r sq = list_ex (\<lambda>c. should_stop c r0 it r sq) cs"

text \<open>
  Modelled from the spec: an iterative solve checks its criterion before every iteration
  and runs until the criterion stops it (section 5: it runs to completion or to the
  iteration cap). \<open>res it\<close> is the residual norm and the implicit squared residual norm
  after \<open>it\<close> iterations, whatever the method; the result is the number of iterations
  done, and \<open>None\<close> if the solve never halts.
\<close>

partial_function (option) iterations_done ::
  "CriterionFactory \<Rightarrow> (nat \<Rightarrow> real \<times> real) \<Rightarrow> nat \<Rightarrow> nat option" where
  "iterations_done crit res it =
     (if should_stop crit (fst (res 0)) it (fst (res it)) (snd (res it)) then Some it
      else iterations_done crit res (Suc it))"

text \<open>
  A scalar operand on executor \<open>ex\<close> can be read by a wrapper on \<open>this_exec\<close>: it is on
  a host executor, or in the memory of the wrapper's own executor (where the backend
  places the operands of an apply).
\<close>

definition readable_scalar :: "Executor \<Rightarrow> Executor \<Rightarrow> bool" where
  "readable_scalar this_exec ex =
     (ex = get_master ex \<or> mem_space_of ex = mem_space_of this_exec)"

text \<open>The invariant of the two flags.\<close>

definition wrapped_inv :: "GinkgoIterativeSolver \<Rightarrow> bool" where
  "wrapped_inv this = (sub_op_needs_wrapped_vecs this \<longrightarrow> needs_wrapped_vecs this)"

text \<open>
  What a constructor taking a preconditioner looks for: a generated preconditioner that
  is an \<^verbatim>\<open>OperatorWrapper\<close>.
\<close>

definition detects_wrapped :: "GinkgoPreconditioner \<Rightarrow> bool" where
  "detects_wrapped p =
     (HasGeneratedPreconditioner p \<and> is_OperatorWrapper (GetGeneratedPreconditioner p))"

text \<open>The two flags of a solver: \<^verbatim>\<open>sub_op_needs_wrapped_vecs\<close>, then \<^verbatim>\<open>needs_wrapped_vecs\<close>.\<close>

definition flags :: "GinkgoIterativeSolver \<Rightarrow> bool \<times> bool" where
  "flags this = (sub_op_needs_wrapped_vecs this, needs_wrapped_vecs this)"

section \<open>Concrete instances\<close>

text \<open>
  Small inputs on which the definitions are run: a host and a CUDA execution context, the
  2 by 2 identity as a sparse matrix, a 2 by 3 sparse matrix, the identity as a
  matrix-free operator, the doubling operator, a CG solver bound to the identity matrix,
  a Jacobi preconditioner generated for it, and an MFEM solver wrapped as a preconditioner.
\<close>

definition host :: GinkgoExecutor where
  "host = \<lparr>ge_executor = Some OmpExecutor\<rparr>"

definition cuda0 :: Executor where
  "cuda0 = CudaExecutor 0 OmpExecutor"

definition identity2 :: SparseMatrix where
  "identity2 = \<lparr>sm_Height = 2, sm_Width = 2, sm_Capacity = 2,
     sm_I = [0, 1, 2], sm_J = [0, 1], sm_Data = [Finite 1, Finite 1]\<rparr>"

definition wide23 :: SparseMatrix where
  "wide23 = \<lparr>sm_Height = 2, sm_Width = 3, sm_Capacity = 2,
     sm_I = [0, 1, 2], sm_J = [0, 2], sm_Data = [Finite 1, Finite 1]\<rparr>"

definition matrix_free_identity :: GenericOperator where
  "matrix_free_identity = \<lparr>op_Height = 2, op_Width = 2, op_Mult = (\<lambda>v. v)\<rparr>"

definition doubling :: GenericOperator where
  "doubling = \<lparr>op_Height = 2, op_Width = 2, op_Mult = map (\<lambda>vi. dmul (Finite 2) vi)\<rparr>"

definition identity2_csr :: LinOp where
  "identity2_csr = Csr OmpExecutor 2 2 False [Finite 1, Finite 1] [0, 1] [0, 1, 2]"

definition bound_cg :: GinkgoIterativeSolver where
  "bound_cg = (CGSolver_ctor host)
     \<lparr>system_oper := Some identity2_csr,
      solver := Some (Generated
        (Solver_Factory Cg Double None None (combined_factory (CGSolver_ctor host))
           None None None) identity2_csr)\<rparr>"

definition bound_jacobi :: GinkgoPreconditioner where
  "bound_jacobi = (GinkgoPreconditioner_ctor host)
     \<lparr>has_generated_precond := True,
      generated_precond := Some (Generated (Jacobi_Factory Double None) identity2_csr),
      precond_gen := Some (Jacobi_Factory Double None)\<rparr>"

definition wrapped_precond :: GinkgoPreconditioner where
  "wrapped_precond = (GinkgoPreconditioner_ctor host)
     \<lparr>generated_precond := Some (OperatorWrapper OmpExecutor 2 doubling),
      has_generated_precond := True\<rparr>"

text \<open>
  The CG solver built with the wrapped preconditioner, after \<^verbatim>\<open>SetOperator\<close> with the
  identity matrix.
\<close>

definition rebound_wrapped_cg :: GinkgoIterativeSolver where
  "rebound_wrapped_cg =
     (let this = CGSolver_precond_ctor host wrapped_precond
      in this\<lparr>system_oper := Some identity2_csr,
              solver := Some (Generated
                (Solver_Factory Cg Double None None (combined_factory this)
                   (Some (OperatorWrapper OmpExecutor 2 doubling)) None None)
                identity2_csr)\<rparr>)"

text \<open>
  A backend solve that stops after three iterations with the iterate \<open>[1, 1]\<close>, residual
  norm 2 and implicit squared residual norm 4, reporting \<open>flag\<close> as its convergence.
\<close>

definition three_steps_result :: "bool \<Rightarrow> SolveResult" where
  "three_steps_result flag =
     \<lparr>sr_y = [Finite 1, Finite 1],
      sr_log = \<lparr>num_iterations = 3,
                residual_norm = Some (Dense OmpExecutor 1 1 [Finite 2]),
                implicit_sq_resnorm = Some (Dense OmpExecutor 1 1 [Finite 4]),
                has_converged = flag\<rparr>,
      sr_trace = []\<rparr>"

definition three_steps :: "bool \<Rightarrow> backend" where
  "three_steps flag slv gko_x gko_y = Inr (three_steps_result flag)"

section \<open>Execution-context selection\<close>

lemma explicit_cuda_without_devices_aborts:
  "cuda_num_devices rt \<le> 0 \<Longrightarrow> \<exists>msg. GinkgoExecutor_ExecType rt CUDA = Inl (Abort msg)"
  by simp

lemma best_match_hip_without_devices_aborts:
  "\<not> Allows_CUDA_MASK dev \<Longrightarrow> Allows_HIP_MASK dev \<Longrightarrow> hip_num_devices rt \<le> 0 \<Longrightarrow>
   \<exists>msg. GinkgoExecutor_Device rt dev = Inl (Abort msg)"
  by (simp add: GinkgoExecutor_Device_def)

text \<open>
  Claim C1. An explicitly requested accelerator backend that reports zero devices must
  fail with a fatal error. The CUDA case aborts (lemma above), and so does the HIP case of
  the best-match constructor; the HIP case of the explicit constructor only writes a line
  to \<^verbatim>\<open>mfem::err\<close> and returns an object whose executor is null.
\<close>

theorem explicit_hip_without_devices_returns:
  "GinkgoExecutor_ExecType no_devices HIP =
     Inr (\<lparr>ge_executor = None\<rparr>,
          [Text ''gko::HipExecutor::get_num_devices() did not report any valid devices''])"
  by (simp add: no_devices_def)

section \<open>The final residual norm\<close>

lemmas ctor_defs = CGSolver_ctor_def build_solver_def GinkgoIterativeSolver_ctor_def
  update_stop_factory_def host_def

lemma bound_cg_by_SetOperator:
  "SetOperator (CGSolver_ctor host) (SparseMatrixOp identity2) = Inr bound_cg"
  by (simp add: SetOperator_def release_binding_def generate_solver_def ctor_defs
      identity2_def bound_cg_def identity2_csr_def Let_def)

text \<open>
  The norm is read from a copy on the master executor, so a norm logged on a device is
  read on the host all the same; in either mode the first entry is returned as it is.
\<close>

lemma final_res_norm_read_on_master:
  assumes "mem_space_of (get_master ex) = HostMemory"
  shows "final_res_norm_of True ex
           (logger\<lparr>implicit_sq_resnorm := Some (Dense e r c (v # vs))\<rparr>) = Inr v"
    and "final_res_norm_of False ex
           (logger\<lparr>residual_norm := Some (Dense e r c (v # vs))\<rparr>) = Inr v"
  using assms by (simp_all add: final_res_norm_of_def)

text \<open>
  Claim C2. In implicit residual mode the final residual norm is the square root of the
  logger's implicit squared residual norm. Here a CG solver (implicit mode) is run with a
  backend whose logger reports the implicit squared norm 4: the line printed at print
  level 2 gives 4 as the final residual norm, not 2.
\<close>

theorem implicit_norm_reported_squared:
  "map_sum id mr_out
     (Mult (three_steps True) (bound_cg\<lparr>print_level := 2\<rparr>)
        [Finite 1, Finite 1] [Finite 0, Finite 0])
     = Inr [ConvergedIn 3 (Finite 4)]"
  by (simp add: Mult_def bound_cg_def ctor_defs identity2_csr_def Let_def wrap_vector_def
      attach_loggers_def initialize_ginkgo_log_def three_steps_def three_steps_result_def
      report_def final_res_norm_of_def)

section \<open>State after a failed SetOperator\<close>

lemma nonsquare_raises:
  "SetOperator bound_cg (SparseMatrixOp wide23) =
     Inl (Abort ''System matrix is not square'', bound_cg\<lparr>system_oper := None, solver := None\<rparr>)"
  by (simp add: SetOperator_def release_binding_def bound_cg_def ctor_defs wide23_def Let_def
      identity2_csr_def)

lemma generic_operator_raises:
  "GinkgoPreconditioner_SetOperator bound_jacobi (OtherOp matrix_free_identity) =
     Inl (Abort ''GinkgoPreconditioner::SetOperator : not a SparseMatrix!'',
          bound_jacobi\<lparr>generated_precond := None, has_generated_precond := False\<rparr>)"
  by (simp add: GinkgoPreconditioner_SetOperator_def discard_generated_def bound_jacobi_def
      GinkgoPreconditioner_ctor_def Let_def)

lemma SetOperator_Abort_state:
  assumes "SetOperator this op = Inl (Abort msg, this')"
  shows "this' = release_binding this"
  using assms
  by (auto simp: SetOperator_def generate_solver_def Let_def
      split: Operator.splits option.splits if_splits)

lemma GinkgoPreconditioner_SetOperator_Abort_state:
  assumes "GinkgoPreconditioner_SetOperator p op = Inl (Abort msg, p')"
  shows "p' = discard_generated p"
  using assms
  by (auto simp: GinkgoPreconditioner_SetOperator_def Let_def
      split: Operator.splits option.splits if_splits)

lemma release_binding_unbound: "system_oper this = None \<Longrightarrow> release_binding this = this"
  by (simp add: release_binding_def)

lemma release_binding_bound:
  "system_oper this \<noteq> None \<Longrightarrow>
   release_binding this =
     this\<lparr>needs_wrapped_vecs := (needs_wrapped_vecs this \<and> sub_op_needs_wrapped_vecs this),
          system_oper := None, solver := None, solver_loggers := []\<rparr>"
  by (auto simp: release_binding_def)

text \<open>
  Claim C3, as stated: a SetOperator that raises leaves the previously bound operator,
  the generated instance and the flags untouched. It does not: a CG solver bound to the
  identity matrix and given a 2 by 3 matrix aborts with its operator and solver already
  released, and a preconditioner generated for the identity matrix and given a
  matrix-free operator aborts with its generated instance already discarded.
\<close>

theorem SetOperator_abort_mutates:
  "SetOperator bound_cg (SparseMatrixOp wide23) =
     Inl (Abort ''System matrix is not square'', bound_cg\<lparr>system_oper := None, solver := None\<rparr>)
   \<and> system_oper bound_cg = Some identity2_csr
   \<and> bound_cg\<lparr>system_oper := None, solver := None\<rparr> \<noteq> bound_cg
   \<and> GinkgoPreconditioner_SetOperator bound_jacobi (OtherOp matrix_free_identity) =
       Inl (Abort ''GinkgoPreconditioner::SetOperator : not a SparseMatrix!'',
            bound_jacobi\<lparr>generated_precond := None, has_generated_precond := False\<rparr>)
   \<and> has_generated_precond bound_jacobi = True
   \<and> bound_jacobi\<lparr>generated_precond := None, has_generated_precond := False\<rparr> \<noteq> bound_jacobi"
proof -
  have "system_oper (bound_cg\<lparr>system_oper := None, solver := None\<rparr>) \<noteq> system_oper bound_cg"
    by (simp add: bound_cg_def)
  then have a: "bound_cg\<lparr>system_oper := None, solver := None\<rparr> \<noteq> bound_cg"
    by metis
  have "has_generated_precond
          (bound_jacobi\<lparr>generated_precond := None, has_generated_precond := False\<rparr>)
        \<noteq> has_generated_precond bound_jacobi"
    by (simp add: bound_jacobi_def)
  then have b: "bound_jacobi\<lparr>generated_precond := None, has_generated_precond := False\<rparr>
                  \<noteq> bound_jacobi"
    by metis
  have c: "system_oper bound_cg = Some identity2_csr" by (simp add: bound_cg_def)
  have d: "has_generated_precond bound_jacobi = True" by (simp add: bound_jacobi_def)
  from nonsquare_raises generic_operator_raises a b c d show ?thesis by simp
qed

text \<open>
  Claim C3, amended. When SetOperator aborts (a non-square sparse matrix for a solver, an
  operator that is not a sparse matrix for a preconditioner), the object is in the state
  reached by releasing the previous binding and nothing else has changed: a solver with a
  bound operator has lost the operator, the generated solver and its loggers, and its
  \<^verbatim>\<open>needs_wrapped_vecs\<close> is kept only if a sub-operator needs wrapped vectors; a
  preconditioner has lost its generated instance. An object with nothing bound is
  untouched.
\<close>

theorem SetOperator_abort_releases_binding:
  "(SetOperator this op = Inl (Abort msg, this') \<longrightarrow>
      this' = release_binding this
      \<and> (if system_oper this = None then this' = this
         else this' = this\<lparr>needs_wrapped_vecs :=
                              (needs_wrapped_vecs this \<and> sub_op_needs_wrapped_vecs this),
                            system_oper := None, solver := None, solver_loggers := []\<rparr>))
   \<and> (GinkgoPreconditioner_SetOperator p op' = Inl (Abort msg', p') \<longrightarrow>
      p' = discard_generated p
      \<and> (if has_generated_precond p
         then p' = p\<lparr>generated_precond := None, has_generated_precond := False\<rparr>
         else p' = p))"
proof (intro conjI impI)
  assume a: "SetOperator this op = Inl (Abort msg, this')"
  then show r: "this' = release_binding this" by (rule SetOperator_Abort_state)
  show "if system_oper this = None then this' = this
        else this' = this\<lparr>needs_wrapped_vecs :=
                             (needs_wrapped_vecs this \<and> sub_op_needs_wrapped_vecs this),
                           system_oper := None, solver := None, solver_loggers := []\<rparr>"
    using r release_binding_unbound [of this] release_binding_bound [of this] by simp
next
  assume b: "GinkgoPreconditioner_SetOperator p op' = Inl (Abort msg', p')"
  then show d: "p' = discard_generated p" by (rule GinkgoPreconditioner_SetOperator_Abort_state)
  show "if has_generated_precond p
        then p' = p\<lparr>generated_precond := None, has_generated_precond := False\<rparr>
        else p' = p"
    using d by (simp add: discard_generated_def)
qed

theorem SetOperator_abort_releases_binding_witness:
  "bound_cg\<lparr>system_oper := None, solver := None\<rparr> = release_binding bound_cg
   \<and> bound_jacobi\<lparr>generated_precond := None, has_generated_precond := False\<rparr>
       = discard_generated bound_jacobi"
proof -
  note t = SetOperator_abort_releases_binding
    [of bound_cg "SparseMatrixOp wide23" "''System matrix is not square''"
        "bound_cg\<lparr>system_oper := None, solver := None\<rparr>"
        bound_jacobi "OtherOp matrix_free_identity"
        "''GinkgoPreconditioner::SetOperator : not a SparseMatrix!''"
        "bound_jacobi\<lparr>generated_precond := None, has_generated_precond := False\<rparr>"]
  from t nonsquare_raises have "bound_cg\<lparr>system_oper := None, solver := None\<rparr>
      = release_binding bound_cg" by blast
  moreover from t generic_operator_raises
  have "bound_jacobi\<lparr>generated_precond := None, has_generated_precond := False\<rparr>
      = discard_generated bound_jacobi" by blast
  ultimately show ?thesis by blast
qed

section \<open>The multigrid preconditioner\<close>

text \<open>
  With mixed precision and a smoother other than CG, the constructor builds a double and
  a single precision smoother and coarsening, and the selector gives level 0 the double
  and every other level the single precision one.
\<close>

lemma mixed_precision_levels:
  assumes "smoother \<noteq> CG"
  shows "\<exists>mg. precond_gen (AMGPreconditioner_ctor exec smoother pre_sweeps post_sweeps
                   coarse_solver coarse_solve_its True skip_sort) = Some mg
     \<and> smoother_precision_at mg 0 = Some Double
     \<and> smoother_precision_at mg (Suc n) = Some Float
     \<and> mg_level_precision_at mg 0 = Some Double
     \<and> mg_level_precision_at mg (Suc n) = Some Float"
  using assms
  by (cases smoother)
     (simp_all add: AMGPreconditioner_ctor_def GinkgoPreconditioner_ctor_def Let_def
        smoother_precision_at_def mg_level_precision_at_def component_at_def selector_def)

text \<open>
  Claim C4. For every smoother kind the mixed-precision constructor builds a full and a
  reduced precision smoother, used at level 0 and at the other levels. For the CG
  smoother the single precision factory overwrites \<^verbatim>\<open>smoother_gen\<close> instead of being
  stored in \<^verbatim>\<open>smoother_gen_s\<close>: the smoother list is the single precision CG followed by
  a null factory, so level 0 is smoothed in single precision and the other levels have no
  smoother.
\<close>

theorem mixed_cg_smoother_levels:
  "\<exists>mg. precond_gen (AMGPreconditioner_ctor host CG 1 1 JACOBI 4 True False) = Some mg
     \<and> pre_smoother mg =
         [Some (Solver_Factory Cg Float None None (Some (Iteration 1)) None None None), None]
     \<and> smoother_precision_at mg 0 = Some Float
     \<and> smoother_precision_at mg 1 = None"
  by (simp add: AMGPreconditioner_ctor_def GinkgoPreconditioner_ctor_def Let_def
      smoother_precision_at_def component_at_def selector_def)

text \<open>
  Claim C7. Whatever the arguments of the constructor, the multigrid factory it builds
  has the single criterion of one iteration and a forced zero initial guess. The
  constructor reads no warm-start setting, and a solver built with the preconditioner
  carries this very factory whatever its own \<^verbatim>\<open>iterative_mode\<close> is set to.
\<close>

theorem amg_one_cycle_zero_guess:
  "\<exists>mg. precond_gen (AMGPreconditioner_ctor exec smoother pre_sweeps post_sweeps coarse_solver
                        coarse_solve_its use_mixed_prec skip_sort) = Some mg
     \<and> mg_criteria mg = Iteration 1 \<and> zero_guess mg = True
     \<and> (\<exists>gen. solver_gen
          ((CGSolver_precond_ctor exec'
              (AMGPreconditioner_ctor exec smoother pre_sweeps post_sweeps coarse_solver
                 coarse_solve_its use_mixed_prec skip_sort))\<lparr>iterative_mode := warm\<rparr>) = Some gen
          \<and> sf_preconditioner gen = Some mg)"
  by (simp add: AMGPreconditioner_ctor_def GinkgoPreconditioner_ctor_def
      CGSolver_precond_ctor_def build_preconditioned_solver_def HasGeneratedPreconditioner_def
      GetFactory_def Let_def split: prod.splits)

lemma amg_generated_from_factory:
  assumes "GinkgoPreconditioner_SetOperator p op = Inr p'"
  shows "\<exists>gen A. precond_gen p = Some gen \<and> generated_precond p' = Some (Generated gen A)
           \<and> precond_gen p' = Some gen"
  using assms
  by (auto simp: GinkgoPreconditioner_SetOperator_def discard_generated_def Let_def
      split: Operator.splits option.splits if_splits)

section \<open>Double arithmetic\<close>

lemma round_half_even_of_int: "round_half_even (of_int k) = k"
  by (simp add: round_half_even_def)

lemma rnd_0: "rnd 0 = Finite 0"
  by (simp add: rnd_def round_half_even_def Let_def)

text \<open>Integers below \<open>2 ^ 53\<close> in magnitude are doubles.\<close>

lemma rnd_of_int:
  assumes "n \<noteq> 0" and "\<bar>n\<bar> < 2 ^ 53"
  shows "rnd (of_int n) = Finite (of_int n)"
proof -
  let ?x = "of_int n :: real"
  define e where "e = \<lfloor>log 2 \<bar>?x\<bar>\<rfloor>"
  have pos: "\<bar>?x\<bar> \<ge> 1" using assms(1) by (simp flip: of_int_abs)
  have lt: "\<bar>?x\<bar> < 2 ^ 53"
  proof -
    have "real_of_int \<bar>n\<bar> < real_of_int (2 ^ 53)" using assms(2) by (subst of_int_less_iff)
    then show ?thesis by simp
  qed
  have b: "2 powr e \<le> \<bar>?x\<bar> \<and> \<bar>?x\<bar> < 2 powr (e + 1)"
    using floor_log_eq_powr_iff [of "\<bar>?x\<bar>" 2 e] pos e_def by simp
  have e0: "0 \<le> e"
  proof -
    have "0 \<le> log 2 \<bar>?x\<bar>" using pos by simp
    then show ?thesis unfolding e_def by simp
  qed
  have e52: "e \<le> 52"
  proof (rule ccontr)
    assume "\<not> e \<le> 52"
    then have "53 \<le> e" by simp
    then have "real_of_int 53 \<le> real_of_int e" by (subst of_int_le_iff)
    then have "(2::real) powr (real_of_int 53) \<le> 2 powr (real_of_int e)"
      by (rule powr_mono) simp
    then have "(2::real) ^ 53 \<le> 2 powr (real_of_int e)" by simp
    with b lt show False by linarith
  qed
  define k where "k = nat (52 - e)"
  have ek: "e - 52 = - int k" using e52 by (simp add: k_def)
  have ulp: "(2::real) powi (e - 52) = inverse (2 ^ k)"
    unfolding ek by (simp add: power_int_minus)
  have q: "?x / (2 powi (e - 52)) = of_int (n * 2 ^ k)"
    by (simp add: ulp divide_inverse)
  have v: "of_int (round_half_even (?x / (2 powi (e - 52)))) * (2::real) powi (e - 52) = ?x"
    unfolding q round_half_even_of_int by (simp add: ulp)
  have m: "max e (- 1022) = e" using e0 by simp
  have big: "\<not> \<bar>?x\<bar> \<ge> 2 ^ 1024"
  proof -
    have "(2::real) ^ 53 \<le> 2 ^ 1024" by (rule power_increasing) simp_all
    with lt show ?thesis by linarith
  qed
  have nz: "?x \<noteq> 0" using assms(1) by simp
  show ?thesis
    unfolding rnd_def e_def [symmetric] m Let_def v using big nz by simp
qed

lemma is_double_of_int: "\<bar>n\<bar> < 2 ^ 53 \<Longrightarrow> is_double (Finite (of_int n))"
  by (cases "n = 0") (simp_all add: is_double_def rnd_of_int rnd_0)

lemma small_doubles:
  "rnd 2 = Finite 2" "rnd 4 = Finite 4" "rnd 5 = Finite 5" "rnd 8 = Finite 8"
  "is_double (Finite 1)" "is_double (Finite 2)" "is_double (Finite 3)" "is_double (Finite 4)"
  using rnd_of_int [of 2] rnd_of_int [of 4] rnd_of_int [of 5] rnd_of_int [of 8]
    is_double_of_int [of 1] is_double_of_int [of 2] is_double_of_int [of 3]
    is_double_of_int [of 4]
  by simp_all

lemma dmul_one_right: "is_double a \<Longrightarrow> dmul a (Finite 1) = a"
  by (cases a) (auto simp: dmul_def is_double_def signed_zero_def signed_inf_def is_zero_def)

lemma dmul_one_left: "is_double a \<Longrightarrow> dmul (Finite 1) a = a"
  by (cases a) (auto simp: dmul_def is_double_def signed_zero_def signed_inf_def is_zero_def)

lemma dmul_zero_right: "is_finite a \<Longrightarrow> dmul a (Finite 0) = signed_zero (sign a)"
  by (cases a) (auto simp: dmul_def)

lemma dmul_zero_right_not_finite: "\<not> is_finite a \<Longrightarrow> dmul a (Finite 0) = NaN"
  by (cases a) (auto simp: dmul_def is_zero_def)

lemma dadd_zero_left: "is_double t \<Longrightarrow> same_number (dadd (signed_zero s) t) t"
  by (cases t) (auto simp: dadd_def is_double_def signed_zero_def same_number_def is_zero_def)

lemma dadd_commute: "dadd a b = dadd b a"
  by (cases a; cases b) (auto simp: dadd_def add.commute signed_zero_def)

section \<open>The scaled composite apply\<close>







lemma read_scalar_value:
  assumes "readable_scalar this_exec ex"
  shows "read_scalar this_exec (Dense ex r c (v # vs)) = Inr v"
  using assms by (cases ex) (auto simp: read_scalar_def readable_scalar_def)




lemma scale_by_zero_then_add:
  assumes "length ts = length xs" and "list_all is_finite xs" and "list_all is_double ts"
  shows "list_all2 same_number (Vector_Add (Vector_scale xs (Finite 0)) (Finite 1) ts) ts"
  using assms
proof (induction xs ts rule: list_induct2')
  case (4 x xs t ts)
  then have "same_number (dadd (dmul x (Finite 0)) (dmul (Finite 1) t)) t"
    by (simp add: dmul_zero_right dmul_one_left dadd_zero_left)
  with 4 show ?case by (simp add: Vector_Add_def Vector_scale_def is_zero_def)
qed (simp_all add: Vector_Add_def Vector_scale_def is_zero_def)

lemma scale_by_one_then_add:
  assumes "list_all is_double xs" and "list_all is_double ts"
  shows "Vector_Add (Vector_scale xs (Finite 1)) (Finite 1) ts
           = map2 (\<lambda>xi ti. dadd ti xi) xs ts"
  using assms
proof (induction xs ts rule: list_induct2')
  case (4 x xs t ts)
  then have "dadd (dmul x (Finite 1)) (dmul (Finite 1) t) = dadd t x"
    by (simp add: dmul_one_right dmul_one_left dadd_commute)
  with 4 show ?case by (simp add: Vector_Add_def Vector_scale_def is_zero_def)
qed (simp_all add: Vector_Add_def Vector_scale_def is_zero_def)

text \<open>
  Claim C6, as stated: for every pair of vectors the scaled apply with \<open>alpha = 1\<close>,
  \<open>beta = 0\<close> gives what the plain apply gives. It does not when \<open>x\<close> holds a NaN (or an
  infinity): \<open>x\<close> is multiplied by beta before the sum, and NaN times zero is NaN. Here
  the operator is the identity, \<open>b = [1, 2]\<close> and \<open>x = [NaN, 4]\<close>.
\<close>

theorem scaled_apply_keeps_nan:
  "apply_impl_scaled OmpExecutor matrix_free_identity (Dense OmpExecutor 1 1 [Finite 1])
       (VectorWrapper OmpExecutor 2 [Finite 1, Finite 2] False)
       (Dense OmpExecutor 1 1 [Finite 0])
       (VectorWrapper OmpExecutor 2 [NaN, Finite 4] False)
     = Inr (VectorWrapper OmpExecutor 2 [NaN, Finite 2] False)
   \<and> apply_impl matrix_free_identity
       (VectorWrapper OmpExecutor 2 [Finite 1, Finite 2] False)
       (VectorWrapper OmpExecutor 2 [NaN, Finite 4] False)
     = Inr (VectorWrapper OmpExecutor 2 [Finite 1, Finite 2] False)"
  by (simp add: apply_impl_scaled_def apply_impl_def read_scalar_def matrix_free_identity_def
      Vector_Add_def Vector_scale_def is_zero_def dmul_def dadd_def signed_zero_def
      small_doubles)

text \<open>
  Claim C6, amended. Let the entries of \<open>x\<close> and of \<open>op(b)\<close> be doubles, \<open>op(b)\<close> of the
  size of \<open>x\<close>, and the scalars on a host executor or in the memory of the wrapper's
  executor. With \<open>alpha = 1\<close> and \<open>beta = 0\<close>, if every entry of \<open>x\<close> is finite, the scaled
  apply gives the numbers the plain apply gives (a zero entry may differ in sign). With
  \<open>alpha = 1\<close> and \<open>beta = 1\<close> it gives \<open>op(b) + x\<close>, entry by entry in double arithmetic, for
  every \<open>x\<close>.
\<close>

theorem scaled_apply_reduces:
  assumes "readable_scalar this_exec ea" and "readable_scalar this_exec eb"
    and "length (op_Mult A bv) = length xv"
    and "list_all is_double xv" and "list_all is_double (op_Mult A bv)"
  shows "(list_all is_finite xv \<longrightarrow>
      (\<exists>ys. apply_impl_scaled this_exec A (Dense ea 1 1 [Finite 1])
               (VectorWrapper bex bn bv bown) (Dense eb 1 1 [Finite 0])
               (VectorWrapper xex xn xv xown)
             = Inr (VectorWrapper xex xn ys xown)
         \<and> apply_impl A (VectorWrapper bex bn bv bown) (VectorWrapper xex xn xv xown)
             = Inr (VectorWrapper xex xn (op_Mult A bv) xown)
         \<and> list_all2 same_number ys (op_Mult A bv)))
     \<and> apply_impl_scaled this_exec A (Dense ea 1 1 [Finite 1]) (VectorWrapper bex bn bv bown)
           (Dense eb 1 1 [Finite 1]) (VectorWrapper xex xn xv xown)
         = Inr (VectorWrapper xex xn (map2 (\<lambda>xi ti. dadd ti xi) xv (op_Mult A bv)) xown)"
proof -
  have a: "read_scalar this_exec (Dense ea r c [v]) = Inr v" for r c v
    using assms(1) by (rule read_scalar_value)
  have b: "read_scalar this_exec (Dense eb r c [v]) = Inr v" for r c v
    using assms(2) by (rule read_scalar_value)
  have z: "list_all2 same_number
        (Vector_Add (Vector_scale xv (Finite 0)) (Finite 1) (op_Mult A bv)) (op_Mult A bv)"
    if "list_all is_finite xv"
    using assms(3) that assms(5) by (rule scale_by_zero_then_add)
  have acc: "Vector_Add (Vector_scale xv (Finite 1)) (Finite 1) (op_Mult A bv)
               = map2 (\<lambda>xi ti. dadd ti xi) xv (op_Mult A bv)"
    using assms(4,5) by (rule scale_by_one_then_add)
  show ?thesis
    using z by (simp add: apply_impl_scaled_def apply_impl_def a b acc)
qed

theorem scaled_apply_reduces_witness:
  "(\<exists>ys. apply_impl_scaled OmpExecutor doubling (Dense OmpExecutor 1 1 [Finite 1])
            (VectorWrapper OmpExecutor 2 [Finite 1, Finite 2] False)
            (Dense OmpExecutor 1 1 [Finite 0])
            (VectorWrapper OmpExecutor 2 [Finite 3, Finite 4] False)
          = Inr (VectorWrapper OmpExecutor 2 ys False)
      \<and> list_all2 same_number ys [Finite 2, Finite 4])
   \<and> apply_impl_scaled cuda0 doubling (Dense cuda0 1 1 [Finite 1])
       (VectorWrapper cuda0 2 [Finite 1, Finite 2] False) (Dense cuda0 1 1 [Finite 1])
       (VectorWrapper cuda0 2 [Finite 3, Finite 4] False)
     = Inr (VectorWrapper cuda0 2 [Finite 5, Finite 8] False)"
proof -
  have h: "readable_scalar OmpExecutor OmpExecutor" by (simp add: readable_scalar_def)
  have d: "readable_scalar cuda0 cuda0" by (simp add: readable_scalar_def)
  have m: "op_Mult doubling [Finite 1, Finite 2] = [Finite 2, Finite 4]"
    by (simp add: doubling_def dmul_def small_doubles)
  have l: "length (op_Mult doubling [Finite 1, Finite 2]) = length [Finite 3, Finite 4]"
    by (simp add: m)
  have x: "list_all is_double [Finite 3, Finite 4]" by (simp add: small_doubles)
  have t: "list_all is_double (op_Mult doubling [Finite 1, Finite 2])"
    by (simp add: m small_doubles)
  have f: "list_all is_finite [Finite 3, Finite 4]" by simp
  have s: "dadd (Finite 2) (Finite 3) = Finite 5" "dadd (Finite 4) (Finite 4) = Finite 8"
    by (simp_all add: dadd_def small_doubles)
  note host_case = scaled_apply_reduces
    [OF h h l x t, of OmpExecutor 2 False OmpExecutor 2 False, THEN conjunct1]
  note device_case = scaled_apply_reduces
    [OF d d l x t, of cuda0 2 False cuda0 2 False, THEN conjunct2]
  from host_case f
  have "\<exists>ys. apply_impl_scaled OmpExecutor doubling (Dense OmpExecutor 1 1 [Finite 1])
            (VectorWrapper OmpExecutor 2 [Finite 1, Finite 2] False)
            (Dense OmpExecutor 1 1 [Finite 0])
            (VectorWrapper OmpExecutor 2 [Finite 3, Finite 4] False)
          = Inr (VectorWrapper OmpExecutor 2 ys False)
      \<and> list_all2 same_number ys [Finite 2, Finite 4]"
    unfolding m by blast
  moreover from device_case
  have "apply_impl_scaled cuda0 doubling (Dense cuda0 1 1 [Finite 1])
       (VectorWrapper cuda0 2 [Finite 1, Finite 2] False) (Dense cuda0 1 1 [Finite 1])
       (VectorWrapper cuda0 2 [Finite 3, Finite 4] False)
     = Inr (VectorWrapper cuda0 2 [Finite 5, Finite 8] False)"
    by (simp add: m s)
  ultimately show ?thesis by blast
qed

section \<open>Solves that do not converge\<close>

lemma attach_loggers_after_init:
  assumes "solver this = Some slv" and "combined_factory this = Some cf"
  shows "\<exists>this1. attach_loggers (initialize_ginkgo_log this b) = Inr this1
     \<and> solver this1 = Some slv
     \<and> use_implicit_res_norm this1 = use_implicit_res_norm this"
  using assms by (simp add: attach_loggers_def initialize_ginkgo_log_def)

lemma report_not_converged:
  assumes "final_res_norm_of (use_implicit_res_norm this) ex (sr_log r) = Inr v"
    and "\<not> has_converged (sr_log r)"
  shows "\<exists>res. report this ex r = Inr res \<and> mr_y res = sr_y r
     \<and> converged (mr_this res) = Some 0
     \<and> final_iter (mr_this res) = Some (int (num_iterations (sr_log r)))
     \<and> mr_err res = [Text ''No convergence!'']"
  using assms by (simp add: report_def Let_def)

text \<open>
  Claim C8. Take a solver with an operator bound and a solver generated, and vectors of
  equal length. If the backend solve returns with a logger that holds a readable norm and
  does not report convergence, then \<^verbatim>\<open>Mult\<close> returns: the solution vector holds the last
  iterate, \<^verbatim>\<open>converged\<close> is 0, the iteration count is recorded, and the only diagnostic is
  the line written to \<^verbatim>\<open>mfem::err\<close>.
\<close>

theorem non_convergence_is_reported:
  assumes "system_oper this \<noteq> None" and "executor this = Some ex" and "length y = length x"
    and "solver this = Some slv" and "combined_factory this = Some cf"
    and "backend slv (wrap_vector this ex x)
           (wrap_vector this ex
              (if \<not> iterative_mode this then replicate (length y) (Finite 0) else y))
         = Inr r"
    and "final_res_norm_of (use_implicit_res_norm this) ex (sr_log r) = Inr v"
    and "\<not> has_converged (sr_log r)"
  shows "\<exists>res. Mult backend this x y = Inr res \<and> mr_y res = sr_y r
     \<and> converged (mr_this res) = Some 0
     \<and> final_iter (mr_this res) = Some (int (num_iterations (sr_log r)))
     \<and> mr_err res = [Text ''No convergence!'']"
proof -
  let ?gx = "wrap_vector this ex x"
  obtain this1 where a: "attach_loggers (initialize_ginkgo_log this ?gx) = Inr this1"
    and s: "solver this1 = Some slv"
    and u: "use_implicit_res_norm this1 = use_implicit_res_norm this"
    using attach_loggers_after_init [OF assms(4) assms(5)] by blast
  have "Mult backend this x y = report this1 ex r"
    using assms(1,2,3,6) a s by (auto simp: Mult_def Let_def)
  moreover have "final_res_norm_of (use_implicit_res_norm this1) ex (sr_log r) = Inr v"
    using assms(7) u by simp
  ultimately show ?thesis
    using report_not_converged [OF _ assms(8)] by simp
qed

theorem non_convergence_is_reported_witness:
  "\<exists>res. Mult (three_steps False) bound_cg [Finite 1, Finite 1] [Finite 5, Finite 7] = Inr res
     \<and> mr_y res = [Finite 1, Finite 1]
     \<and> converged (mr_this res) = Some 0 \<and> final_iter (mr_this res) = Some 3
     \<and> mr_err res = [Text ''No convergence!'']"
proof -
  let ?slv = "Generated (Solver_Factory Cg Double None None
                (combined_factory (CGSolver_ctor host)) None None None) identity2_csr"
  let ?cf = "Combined [ImplicitResidualNorm 0 initial_resnorm,
                ImplicitResidualNorm 0 absolute, Iteration 10]"
  have h1: "system_oper bound_cg \<noteq> None" by (simp add: bound_cg_def)
  have h2: "executor bound_cg = Some OmpExecutor" by (simp add: bound_cg_def ctor_defs Let_def)
  have h3: "length [Finite 5, Finite 7] = length [Finite 1, Finite 1]" by simp
  have h4: "solver bound_cg = Some ?slv" by (simp add: bound_cg_def)
  have h5: "combined_factory bound_cg = Some ?cf" by (simp add: bound_cg_def ctor_defs Let_def)
  have h6: "three_steps False ?slv (wrap_vector bound_cg OmpExecutor [Finite 1, Finite 1])
              (wrap_vector bound_cg OmpExecutor
                 (if \<not> iterative_mode bound_cg
                  then replicate (length [Finite 5, Finite 7]) (Finite 0)
                  else [Finite 5, Finite 7]))
            = Inr (three_steps_result False)"
    by (simp add: three_steps_def)
  have h7: "final_res_norm_of (use_implicit_res_norm bound_cg) OmpExecutor
              (sr_log (three_steps_result False)) = Inr (Finite 4)"
    by (simp add: final_res_norm_of_def bound_cg_def ctor_defs Let_def three_steps_result_def)
  have h8: "\<not> has_converged (sr_log (three_steps_result False))"
    by (simp add: three_steps_result_def)
  from non_convergence_is_reported
         [where backend = "three_steps False", OF h1 h2 h3 h4 h5 h6 h7 h8]
  show ?thesis
    by (simp add: three_steps_result_def)
qed

section \<open>Default stopping criteria\<close>

lemma iterations_done_capped:
  "unat n \<le> it + k \<Longrightarrow>
   \<exists>j. iterations_done (Combined [a, b, Iteration n]) res it = Some j \<and> j \<le> max it (unat n)"
proof (induction k arbitrary: it)
  case 0
  then show ?case by (subst iterations_done.simps) simp
next
  case (Suc k)
  show ?case
  proof (cases "should_stop (Combined [a, b, Iteration n]) (fst (res 0)) it
                  (fst (res it)) (snd (res it))")
    case True
    then show ?thesis by (subst iterations_done.simps) simp
  next
    case False
    then have lt: "it < unat n" by simp
    from Suc.prems have "unat n \<le> Suc it + k" by simp
    from Suc.IH [OF this] obtain j where
      j: "iterations_done (Combined [a, b, Iteration n]) res (Suc it) = Some j"
         "j \<le> max (Suc it) (unat n)" by blast
    have "iterations_done (Combined [a, b, Iteration n]) res it = Some j"
      using False j(1) by (subst iterations_done.simps) simp
    moreover have "j \<le> max it (unat n)" using j(2) lt by simp
    ultimately show ?thesis by blast
  qed
qed

lemma derived_constructors_keep_defaults:
  "rel_tol (CGSolver_ctor exec) = 0 \<and> abs_tol (CGSolver_ctor exec) = 0
   \<and> max_iter (CGSolver_ctor exec) = 10
   \<and> (\<exists>gen. solver_gen (CGSolver_ctor exec) = Some gen
        \<and> sf_criteria gen = combined_factory (GinkgoIterativeSolver_ctor exec True))"
  by (simp add: CGSolver_ctor_def build_solver_def GinkgoIterativeSolver_ctor_def
      update_stop_factory_def Let_def)

text \<open>
  Claim C9. A newly constructed solver has relative tolerance 0, absolute tolerance 0 and
  the iteration cap 10, and its combined criterion stops any solve, whatever the residuals
  are, after at most 10 iterations.
\<close>

theorem default_criteria_halt_within_10:
  "rel_tol (GinkgoIterativeSolver_ctor exec use_implicit) = 0
   \<and> abs_tol (GinkgoIterativeSolver_ctor exec use_implicit) = 0
   \<and> max_iter (GinkgoIterativeSolver_ctor exec use_implicit) = 10
   \<and> (\<exists>crit. combined_factory (GinkgoIterativeSolver_ctor exec use_implicit) = Some crit
        \<and> (\<exists>n. iterations_done crit res 0 = Some n \<and> n \<le> 10))"
proof -
  have u: "unat (word_of_int 10 :: 64 word) = 10" by simp
  have "\<exists>j. iterations_done (Combined [a, b, Iteration (word_of_int 10)]) res 0 = Some j
          \<and> j \<le> 10" for a b
    using iterations_done_capped [of "word_of_int 10" 0 10 a b res] u by simp
  then show ?thesis
    by (simp add: GinkgoIterativeSolver_ctor_def update_stop_factory_def Let_def)
qed

section \<open>The wrapped-vector flags\<close>

lemma ctor_flags:
  "needs_wrapped_vecs (GinkgoIterativeSolver_ctor exec imp) = False"
  "sub_op_needs_wrapped_vecs (GinkgoIterativeSolver_ctor exec imp) = False"
  by (simp_all add: GinkgoIterativeSolver_ctor_def update_stop_factory_def)

lemma build_solver_inv:
  "wrapped_inv this \<Longrightarrow> wrapped_inv (build_solver k d p this)"
  by (simp add: wrapped_inv_def build_solver_def)

lemma build_preconditioned_solver_inv:
  "wrapped_inv this \<Longrightarrow> wrapped_inv (build_preconditioned_solver k d p this pc)"
  by (simp add: wrapped_inv_def build_preconditioned_solver_def Let_def)

lemma build_preconditioned_solver_sets_both:
  assumes "HasGeneratedPreconditioner pc"
    and "is_OperatorWrapper (GetGeneratedPreconditioner pc)"
  shows "sub_op_needs_wrapped_vecs (build_preconditioned_solver k d p this pc)
     \<and> needs_wrapped_vecs (build_preconditioned_solver k d p this pc)"
  using assms by (simp add: build_preconditioned_solver_def Let_def)

lemma ctor_inv:
  "wrapped_inv (GinkgoIterativeSolver_ctor exec imp)"
  "wrapped_inv ((GinkgoIterativeSolver_ctor exec imp)\<lparr>m := k\<rparr>)"
  by (simp_all add: wrapped_inv_def ctor_flags)

lemma IR_inner_inv: "wrapped_inv (IRSolver_inner_ctor exec inner)"
  by (simp add: wrapped_inv_def IRSolver_inner_ctor_def Let_def ctor_flags)

lemma IR_inner_sets_both:
  assumes "UsesVectorWrappers inner"
  shows "sub_op_needs_wrapped_vecs (IRSolver_inner_ctor exec inner)
     \<and> needs_wrapped_vecs (IRSolver_inner_ctor exec inner)"
  using assms by (simp add: IRSolver_inner_ctor_def Let_def)

lemma release_binding_inv: "wrapped_inv this \<Longrightarrow> wrapped_inv (release_binding this)"
  by (auto simp: wrapped_inv_def release_binding_def)

lemma release_binding_resets_only_without_sub_op:
  assumes "needs_wrapped_vecs this" and "\<not> needs_wrapped_vecs (release_binding this)"
  shows "\<not> sub_op_needs_wrapped_vecs this"
  using assms by (auto simp: release_binding_def split: if_splits)

lemma generate_solver_flags:
  "generate_solver this = Inr this' \<or> generate_solver this = Inl (e, this') \<Longrightarrow>
   needs_wrapped_vecs this' = needs_wrapped_vecs this
   \<and> sub_op_needs_wrapped_vecs this' = sub_op_needs_wrapped_vecs this"
  by (auto simp: generate_solver_def split: option.splits)

lemma SetOperator_inv:
  assumes "wrapped_inv this"
    and "SetOperator this op = Inr this' \<or> SetOperator this op = Inl (e, this')"
  shows "wrapped_inv this'"
proof -
  have r: "wrapped_inv (release_binding this)" using assms(1) by (rule release_binding_inv)
  show ?thesis
  proof (cases op)
    case (SparseMatrixOp op_mat)
    with assms(2) r show ?thesis
      by (auto simp: SetOperator_def Let_def wrapped_inv_def
          split: if_splits option.splits dest!: generate_solver_flags [OF disjI1]
            generate_solver_flags [OF disjI2])
  next
    case (OtherOp g)
    with assms(2) r show ?thesis
      by (auto simp: SetOperator_def Let_def wrapped_inv_def
          split: if_splits option.splits dest!: generate_solver_flags [OF disjI1]
            generate_solver_flags [OF disjI2])
  qed
qed

lemma attach_loggers_flags:
  "attach_loggers this = Inr this1 \<Longrightarrow>
   needs_wrapped_vecs this1 = needs_wrapped_vecs this
   \<and> sub_op_needs_wrapped_vecs this1 = sub_op_needs_wrapped_vecs this"
  by (auto simp: attach_loggers_def split: option.splits if_splits)

lemma report_flags:
  "report this ex r = Inr res \<Longrightarrow>
   needs_wrapped_vecs (mr_this res) = needs_wrapped_vecs this
   \<and> sub_op_needs_wrapped_vecs (mr_this res) = sub_op_needs_wrapped_vecs this"
  by (auto simp: report_def Let_def split: sum.splits)

lemma Mult_flags:
  assumes "Mult backend this x y = Inr res"
  shows "needs_wrapped_vecs (mr_this res) = needs_wrapped_vecs this
   \<and> sub_op_needs_wrapped_vecs (mr_this res) = sub_op_needs_wrapped_vecs this"
proof -
  from assms obtain ex this1 r where
    a: "attach_loggers (initialize_ginkgo_log this (wrap_vector this ex x)) = Inr this1"
    and rp: "report this1 ex r = Inr res"
    by (auto simp: Mult_def Let_def split: if_splits option.splits sum.splits)
  from attach_loggers_flags [OF a] report_flags [OF rp] show ?thesis
    by (simp add: initialize_ginkgo_log_def)
qed

lemma SetKDim_flags:
  "SetKDim kind this k = Inr this' \<Longrightarrow>
   needs_wrapped_vecs this' = needs_wrapped_vecs this
   \<and> sub_op_needs_wrapped_vecs this' = sub_op_needs_wrapped_vecs this"
  by (auto simp: SetKDim_def Let_def split: option.splits sum.splits LinOp.splits)

lemma reachable_inv:
  assumes "reachable this"
  shows "wrapped_inv this"
  using assms
proof (induction rule: reachable.induct)
  case (r_SetOperator this op this')
  then show ?case using SetOperator_inv by blast
next
  case (r_SetOperator_raised this op e this')
  then show ?case using SetOperator_inv by blast
next
  case (r_Mult this backend x y r)
  then show ?case using Mult_flags [of backend this x y r] by (simp add: wrapped_inv_def)
next
  case (r_update_stop_factory this)
  then show ?case by (simp add: wrapped_inv_def update_stop_factory_def Let_def)
next
  case (r_SetKDim this kind kdim this')
  then show ?case using SetKDim_flags [of kind this kdim this'] by (simp add: wrapped_inv_def)
qed (simp_all add: CGSolver_ctor_def CGSolver_precond_ctor_def BICGSTABSolver_ctor_def
      BICGSTABSolver_precond_ctor_def CGSSolver_ctor_def CGSSolver_precond_ctor_def
      FCGSolver_ctor_def FCGSolver_precond_ctor_def GMRESSolver_ctor_def
      GMRESSolver_precond_ctor_def CBGMRESSolver_ctor_def CBGMRESSolver_precond_ctor_def
      IRSolver_ctor_def IR_inner_inv build_solver_inv build_preconditioned_solver_inv ctor_inv)

lemma wrapped_precond_by_ctor: "MFEMPreconditioner_ctor host doubling = Inr wrapped_precond"
  by (simp add: MFEMPreconditioner_ctor_def wrapped_precond_def GinkgoPreconditioner_ctor_def
      host_def doubling_def)

lemma rebound_wrapped_cg_flags:
  "SetOperator (CGSolver_precond_ctor host wrapped_precond) (SparseMatrixOp identity2)
     = Inr rebound_wrapped_cg
   \<and> sub_op_needs_wrapped_vecs rebound_wrapped_cg"
  by (simp add: rebound_wrapped_cg_def SetOperator_def release_binding_def generate_solver_def
      CGSolver_precond_ctor_def build_preconditioned_solver_def HasGeneratedPreconditioner_def
      GetGeneratedPreconditioner_def wrapped_precond_def GinkgoPreconditioner_ctor_def
      GinkgoIterativeSolver_ctor_def update_stop_factory_def host_def identity2_def
      identity2_csr_def Let_def)

lemma SetOperator_keeps_sub_op:
  assumes "SetOperator this op = Inr this' \<or> SetOperator this op = Inl (e, this')"
  shows "sub_op_needs_wrapped_vecs this' = sub_op_needs_wrapped_vecs this"
proof -
  have r: "sub_op_needs_wrapped_vecs (release_binding this) = sub_op_needs_wrapped_vecs this"
    by (simp add: release_binding_def)
  from assms r show ?thesis
    by (cases op)
       (auto simp: SetOperator_def Let_def split: if_splits option.splits
          dest!: generate_solver_flags [OF disjI1] generate_solver_flags [OF disjI2])
qed

lemma SetOperator_resets_only_without_sub_op:
  assumes "SetOperator this op = Inr this' \<or> SetOperator this op = Inl (e, this')"
    and "needs_wrapped_vecs this" and "\<not> needs_wrapped_vecs this'"
  shows "\<not> sub_op_needs_wrapped_vecs this"
proof -
  have "\<not> needs_wrapped_vecs (release_binding this)"
    using assms(1,3)
    by (cases op)
       (auto simp: SetOperator_def Let_def split: if_splits option.splits
          dest!: generate_solver_flags [OF disjI1] generate_solver_flags [OF disjI2])
  with assms(2) show ?thesis by (rule release_binding_resets_only_without_sub_op)
qed

lemma plain_constructor_flags:
  "flags (CGSolver_ctor exec) = (False, False)"
  "flags (BICGSTABSolver_ctor exec) = (False, False)"
  "flags (CGSSolver_ctor exec) = (False, False)"
  "flags (FCGSolver_ctor exec) = (False, False)"
  "flags (GMRESSolver_ctor exec kdim) = (False, False)"
  "flags (CBGMRESSolver_ctor exec kdim prec) = (False, False)"
  "flags (IRSolver_ctor exec) = (False, False)"
  by (simp_all add: flags_def CGSolver_ctor_def BICGSTABSolver_ctor_def CGSSolver_ctor_def
      FCGSolver_ctor_def GMRESSolver_ctor_def CBGMRESSolver_ctor_def IRSolver_ctor_def
      build_solver_def ctor_flags)

lemma build_preconditioned_solver_flags:
  assumes "flags this = (False, False)"
  shows "flags (build_preconditioned_solver k d p this pc) = (detects_wrapped pc, detects_wrapped pc)"
  using assms
  by (auto simp: flags_def build_preconditioned_solver_def detects_wrapped_def Let_def)

lemma base_constructor_flags:
  "flags (GinkgoIterativeSolver_ctor exec imp) = (False, False)"
  "flags ((GinkgoIterativeSolver_ctor exec imp)\<lparr>m := k\<rparr>) = (False, False)"
  by (simp_all add: flags_def ctor_flags)

lemma preconditioned_constructor_flags:
  "flags (CGSolver_precond_ctor exec p) = (detects_wrapped p, detects_wrapped p)"
  "flags (BICGSTABSolver_precond_ctor exec p) = (detects_wrapped p, detects_wrapped p)"
  "flags (CGSSolver_precond_ctor exec p) = (detects_wrapped p, detects_wrapped p)"
  "flags (FCGSolver_precond_ctor exec p) = (detects_wrapped p, detects_wrapped p)"
  "flags (GMRESSolver_precond_ctor exec p kdim) = (detects_wrapped p, detects_wrapped p)"
  "flags (CBGMRESSolver_precond_ctor exec p kdim prec) = (detects_wrapped p, detects_wrapped p)"
  by (simp_all add: CGSolver_precond_ctor_def BICGSTABSolver_precond_ctor_def
      CGSSolver_precond_ctor_def FCGSolver_precond_ctor_def GMRESSolver_precond_ctor_def
      CBGMRESSolver_precond_ctor_def build_preconditioned_solver_flags base_constructor_flags)

lemma IR_inner_flags:
  "flags (IRSolver_inner_ctor exec inner) = (UsesVectorWrappers inner, UsesVectorWrappers inner)"
  by (simp add: flags_def IRSolver_inner_ctor_def Let_def ctor_flags)

text \<open>
  Claim C10. In every state a solver object can reach (after any constructor and any
  sequence of \<^verbatim>\<open>SetOperator\<close>, \<^verbatim>\<open>Mult\<close>, \<^verbatim>\<open>update_stop_factory\<close> and \<^verbatim>\<open>SetKDim\<close>, returning or
  raising), \<^verbatim>\<open>sub_op_needs_wrapped_vecs\<close> implies \<^verbatim>\<open>needs_wrapped_vecs\<close>. \<^verbatim>\<open>SetOperator\<close> never
  changes \<^verbatim>\<open>sub_op_needs_wrapped_vecs\<close> and resets \<^verbatim>\<open>needs_wrapped_vecs\<close> only when
  \<^verbatim>\<open>sub_op_needs_wrapped_vecs\<close> is false. Every constructor without a sub-operator leaves
  both flags false; every constructor with a preconditioner sets both flags exactly when
  the preconditioner is generated and is an \<^verbatim>\<open>OperatorWrapper\<close>; the constructor with an
  inner solver sets both exactly when the inner solver uses vector wrappers.
\<close>

theorem wrapped_vecs_flags_invariant:
  "(reachable this \<longrightarrow> sub_op_needs_wrapped_vecs this \<longrightarrow> needs_wrapped_vecs this)
   \<and> (SetOperator this op = Inr this' \<or> SetOperator this op = Inl (e, this') \<longrightarrow>
        sub_op_needs_wrapped_vecs this' = sub_op_needs_wrapped_vecs this
        \<and> (needs_wrapped_vecs this \<longrightarrow> \<not> needs_wrapped_vecs this' \<longrightarrow>
             \<not> sub_op_needs_wrapped_vecs this))
   \<and> flags (GinkgoIterativeSolver_ctor exec use_implicit) = (False, False)
   \<and> flags (CGSolver_ctor exec) = (False, False)
   \<and> flags (BICGSTABSolver_ctor exec) = (False, False)
   \<and> flags (CGSSolver_ctor exec) = (False, False)
   \<and> flags (FCGSolver_ctor exec) = (False, False)
   \<and> flags (GMRESSolver_ctor exec kdim) = (False, False)
   \<and> flags (CBGMRESSolver_ctor exec kdim prec) = (False, False)
   \<and> flags (IRSolver_ctor exec) = (False, False)
   \<and> flags (CGSolver_precond_ctor exec p) = (detects_wrapped p, detects_wrapped p)
   \<and> flags (BICGSTABSolver_precond_ctor exec p) = (detects_wrapped p, detects_wrapped p)
   \<and> flags (CGSSolver_precond_ctor exec p) = (detects_wrapped p, detects_wrapped p)
   \<and> flags (FCGSolver_precond_ctor exec p) = (detects_wrapped p, detects_wrapped p)
   \<and> flags (GMRESSolver_precond_ctor exec p kdim) = (detects_wrapped p, detects_wrapped p)
   \<and> flags (CBGMRESSolver_precond_ctor exec p kdim prec)
        = (detects_wrapped p, detects_wrapped p)
   \<and> flags (IRSolver_inner_ctor exec inner)
        = (UsesVectorWrappers inner, UsesVectorWrappers inner)"
proof -
  have inv: "reachable this \<longrightarrow> sub_op_needs_wrapped_vecs this \<longrightarrow> needs_wrapped_vecs this"
    using reachable_inv [of this] by (simp add: wrapped_inv_def)
  have set: "SetOperator this op = Inr this' \<or> SetOperator this op = Inl (e, this') \<longrightarrow>
        sub_op_needs_wrapped_vecs this' = sub_op_needs_wrapped_vecs this
        \<and> (needs_wrapped_vecs this \<longrightarrow> \<not> needs_wrapped_vecs this' \<longrightarrow>
             \<not> sub_op_needs_wrapped_vecs this)"
    using SetOperator_keeps_sub_op [of this op this' e]
      SetOperator_resets_only_without_sub_op [of this op this' e] by blast
  from inv set show ?thesis
    by (simp only: base_constructor_flags plain_constructor_flags
        preconditioned_constructor_flags IR_inner_flags simp_thms)
qed

theorem wrapped_vecs_flags_invariant_witness:
  "needs_wrapped_vecs rebound_wrapped_cg
   \<and> flags (CGSolver_precond_ctor host wrapped_precond) = (True, True)
   \<and> flags (IRSolver_inner_ctor host rebound_wrapped_cg) = (True, True)"
proof -
  note t = wrapped_vecs_flags_invariant
  have "reachable (CGSolver_precond_ctor host wrapped_precond)" by (rule r_CG_precond)
  then have r: "reachable rebound_wrapped_cg"
    using rebound_wrapped_cg_flags by (blast intro: r_SetOperator)
  have s: "sub_op_needs_wrapped_vecs rebound_wrapped_cg"
    using rebound_wrapped_cg_flags by blast
  have n: "needs_wrapped_vecs rebound_wrapped_cg"
    using t [THEN conjunct1, of rebound_wrapped_cg] r s by blast
  have w: "detects_wrapped wrapped_precond"
    by (simp add: detects_wrapped_def HasGeneratedPreconditioner_def
        GetGeneratedPreconditioner_def wrapped_precond_def)
  have c: "flags (CGSolver_precond_ctor host wrapped_precond)
             = (detects_wrapped wrapped_precond, detects_wrapped wrapped_precond)"
    using t [of _ _ _ _ host _ _ _ wrapped_precond] by blast
  have i: "flags (IRSolver_inner_ctor host rebound_wrapped_cg)
             = (UsesVectorWrappers rebound_wrapped_cg, UsesVectorWrappers rebound_wrapped_cg)"
    using t [of _ _ _ _ host _ _ _ _ rebound_wrapped_cg] by blast
  from n c i w show ?thesis by (simp add: UsesVectorWrappers_def)
qed

end
